theory Spec2Isabelle
  imports Main "HOL-Library.AList"
begin

section \<open>Data model (src/models.py)\<close>

text \<open>
  \<^verbatim>\<open>NotificationModel\<close> and \<^verbatim>\<open>UserModel\<close> are plain attribute holders. The fields carry a
  prefix because a record field is a global constant in HOL and both classes share
  attribute names; \<open>n_id\<close> is \<^verbatim>\<open>NotificationModel.id\<close>, \<open>u_id\<close> is \<^verbatim>\<open>UserModel.id\<close>.
\<close>

record NotificationModel =
  n_id :: int
  n_user_id :: int
  n_query :: string
  min_price :: int
  max_price :: int
  search_only_hot :: bool
  n_search_mydealz :: bool
  n_search_mindstar :: bool
  n_search_preisjaeger :: bool

record UserModel =
  u_id :: int
  username :: string
  first_name :: string
  last_name :: string
  u_search_mydealz :: bool
  u_search_mindstar :: bool
  u_search_preisjaeger :: bool

text \<open>\<^verbatim>\<open>NotificationModel.__init__\<close> and \<^verbatim>\<open>UserModel.__init__\<close>: the defaults.\<close>

definition new_NotificationModel :: NotificationModel where
  "new_NotificationModel =
     \<lparr>n_id = 0, n_user_id = 0, n_query = [], min_price = 0, max_price = 0,
      search_only_hot = False, n_search_mydealz = True, n_search_mindstar = True,
      n_search_preisjaeger = True\<rparr>"

definition new_UserModel :: UserModel where
  "new_UserModel =
     \<lparr>u_id = 0, username = [], first_name = [], last_name = [],
      u_search_mydealz = True, u_search_mindstar = True, u_search_preisjaeger = False\<rparr>"

text \<open>The exceptions the modelled code raises; every raise is a branch returning \<open>Inl\<close>.\<close>

datatype error =
    NotificationNotFoundError
  | UserNotFoundError
  | ValueError
  | OverflowError
  | KeyError
  | PlainException

section \<open>Python built-ins used by the handlers\<close>

subsection \<open>\<^verbatim>\<open>str.find\<close>, slicing, \<^verbatim>\<open>str.replace\<close>\<close>

text \<open>
  \<open>find_at sub s i\<close> scans \<open>s\<close>, whose first character has index \<open>i\<close> in the whole
  string, for the first position where \<open>sub\<close> starts; \<open>-1\<close> when there is none.
\<close>

fun find_at :: "string \<Rightarrow> string \<Rightarrow> nat \<Rightarrow> int" where
  "find_at sub [] i = (if sub = [] then int i else - 1)"
| "find_at sub (c # cs) i =
     (if take (length sub) (c # cs) = sub then int i else find_at sub cs (Suc i))"

text \<open>\<^verbatim>\<open>s.find(sub, start)\<close> for \<open>start \<ge> 0\<close>.\<close>

definition str_find :: "string \<Rightarrow> string \<Rightarrow> nat \<Rightarrow> int" where
  "str_find s sub start =
     (if length s < start then - 1 else find_at sub (drop start s) start)"

text \<open>\<^verbatim>\<open>s[a:b]\<close> for \<open>0 \<le> a\<close>, \<open>0 \<le> b\<close>.\<close>

definition slice :: "string \<Rightarrow> nat \<Rightarrow> nat \<Rightarrow> string" where
  "slice s a b = take (b - a) (drop a s)"

text \<open>\<^verbatim>\<open>s.replace(old, new)\<close> for single characters \<open>old\<close> and \<open>new\<close>.\<close>

definition replace_char :: "char \<Rightarrow> char \<Rightarrow> string \<Rightarrow> string" where
  "replace_char old new s = map (\<lambda>c. if c = old then new else c) s"

subsection \<open>Numeric literals: \<^verbatim>\<open>int(str)\<close> and \<^verbatim>\<open>float(str)\<close>\<close>

text \<open>
  A character is the code point of the same number, so the strings modelled are those
  of code points below 256. The whitespace that \<^verbatim>\<open>int\<close> and \<^verbatim>\<open>float\<close> strip from both
  ends is tab to carriage return and the blank, and of the code points above 127 the
  next-line character \<open>0x85\<close> and the no-break space \<open>0xA0\<close>. The separators \<open>0x1C\<close>
  to \<open>0x1F\<close> are not stripped: \<^verbatim>\<open>int('\x1c7')\<close> raises \<^verbatim>\<open>ValueError\<close>.
\<close>

definition is_space :: "char \<Rightarrow> bool" where
  "is_space c =
     (let k = (of_char c :: nat) in (9 \<le> k \<and> k \<le> 13) \<or> k = 32 \<or> k = 133 \<or> k = 160)"

definition is_digit :: "char \<Rightarrow> bool" where
  "is_digit c = (let k = (of_char c :: nat) in 48 \<le> k \<and> k \<le> 57)"

definition digit_val :: "char \<Rightarrow> int" where
  "digit_val c = int (of_char c) - 48"

definition lower :: "char \<Rightarrow> char" where
  "lower c = (let k = (of_char c :: nat) in if 65 \<le> k \<and> k \<le> 90 then char_of (k + 32) else c)"

definition strip :: "string \<Rightarrow> string" where
  "strip s = rev (dropWhile is_space (rev (dropWhile is_space s)))"

text \<open>
  \<^verbatim>\<open>digitpart ::= digit (["_"] digit)*\<close>. \<open>digitpart v n s\<close> continues after \<open>n\<close> digits
  of value \<open>v\<close> and returns the value, the number of digits and the unread rest; an
  underscore is read only between two digits.
\<close>

fun digitpart :: "int \<Rightarrow> nat \<Rightarrow> string \<Rightarrow> int \<times> nat \<times> string" where
  "digitpart v n [] = (v, n, [])"
| "digitpart v n (c # cs) =
     (if is_digit c then digitpart (10 * v + digit_val c) (Suc n) cs
      else if c = CHR ''_'' \<and> 0 < n \<and> (case cs of [] \<Rightarrow> False | d # _ \<Rightarrow> is_digit d)
        then digitpart v n cs
      else (v, n, c # cs))"

text \<open>An optional sign: the factor and the rest.\<close>

definition sign_part :: "string \<Rightarrow> int \<times> string" where
  "sign_part s =
     (case s of
        c # cs \<Rightarrow> if c = CHR ''-'' then (- 1, cs) else if c = CHR ''+'' then (1, cs) else (1, s)
      | [] \<Rightarrow> (1, s))"

text \<open>
  \<^verbatim>\<open>int(s)\<close> in base ten: surrounding whitespace, a sign, digits. CPython refuses a
  text of more than 4300 digits (\<^verbatim>\<open>sys.int_info.default_max_str_digits\<close>).
\<close>

definition py_int :: "string \<Rightarrow> error + int" where
  "py_int s =
     (let (sg, r) = sign_part (strip s); (v, n, rest) = digitpart 0 0 r
      in if 0 < n \<and> n \<le> 4300 \<and> rest = [] then Inr (sg * v) else Inl ValueError)"

text \<open>
  A Python float is an IEEE 754 binary64 value. \<open>Finite m e\<close> is the number
  \<open>m * 2 ^ e\<close> (not normalised; only its value is read).
\<close>

datatype pyfloat = Finite int int | Infinite bool | NaN

fun bit_length :: "nat \<Rightarrow> nat" where
  "bit_length n = (if n = 0 then 0 else Suc (bit_length (n div 2)))"

text \<open>\<open>n / d\<close> for \<open>0 < d\<close>, rounded to the nearest integer, a tie to the even one.\<close>

definition round_half_even :: "int \<Rightarrow> int \<Rightarrow> int" where
  "round_half_even n d =
     (let q = n div d; r = n mod d
      in if 2 * r < d then q else if d < 2 * r then q + 1 else if even q then q else q + 1)"

text \<open>\<open>\<lfloor>log\<^sub>2 (a / b)\<rfloor>\<close> for positive \<open>a\<close> and \<open>b\<close>.\<close>

definition floor_log2 :: "nat \<Rightarrow> nat \<Rightarrow> int" where
  "floor_log2 a b =
     (let d = int (bit_length a) - int (bit_length b)
      in if (if 0 \<le> d then 2 ^ nat d * b \<le> a else b \<le> 2 ^ nat (- d) * a) then d else d - 1)"

text \<open>
  The binary64 value nearest to \<open>sg * a / b\<close> (\<open>0 < b\<close>), ties to even: 53 significant
  bits, the least exponent of a normal number is \<open>-1022\<close> (below it the spacing stays
  \<open>2 ^ -1074\<close>), and a rounded magnitude of \<open>2 ^ 1024\<close> or more is an infinity. This is
  what the correctly rounded \<^verbatim>\<open>float(str)\<close> of CPython returns.
\<close>

definition to_double :: "int \<Rightarrow> nat \<Rightarrow> nat \<Rightarrow> pyfloat" where
  "to_double sg a b =
     (if a = 0 then Finite 0 0
      else
        let e = max (floor_log2 a b) (- 1022);
            s = e - 52;
            m = (if 0 \<le> s then round_half_even (int a) (int b * 2 ^ nat s)
                 else round_half_even (int a * 2 ^ nat (- s)) (int b))
        in if 0 \<le> s \<and> 2 ^ 1024 \<le> m * 2 ^ nat s then Infinite (sg < 0) else Finite (sg * m) s)"

text \<open>
  \<^verbatim>\<open>number ::= [digitpart] "." digitpart | digitpart ["."]\<close>: the digits read as one
  integer, the number of digits after the point, and the rest.
\<close>

definition number_part :: "string \<Rightarrow> (int \<times> nat \<times> string) option" where
  "number_part s =
     (let (i, ni, r1) = digitpart 0 0 s
      in case r1 of
           c # r2 \<Rightarrow>
             if c = CHR ''.'' then
               (let (f, nf, r3) = digitpart 0 0 r2
                in if ni = 0 \<and> nf = 0 then None else Some (i * 10 ^ nf + f, nf, r3))
             else if ni = 0 then None else Some (i, 0, r1)
         | [] \<Rightarrow> if ni = 0 then None else Some (i, 0, r1))"

text \<open>\<^verbatim>\<open>exponent ::= ("e" | "E") [sign] digitpart\<close>, to the end of the string.\<close>

definition exponent_part :: "string \<Rightarrow> int option" where
  "exponent_part s =
     (case s of
        [] \<Rightarrow> Some 0
      | c # cs \<Rightarrow>
          if lower c = CHR ''e'' then
            (let (sg, r) = sign_part cs; (v, n, rest) = digitpart 0 0 r
             in if 0 < n \<and> rest = [] then Some (sg * v) else None)
          else None)"

text \<open>
  \<^verbatim>\<open>float(s)\<close>: whitespace stripped, a sign, then \<^verbatim>\<open>inf\<close>, \<^verbatim>\<open>infinity\<close> or \<^verbatim>\<open>nan\<close> in any
  case, or a number with an optional exponent.
\<close>

definition py_float :: "string \<Rightarrow> error + pyfloat" where
  "py_float s =
     (let (sg, r) = sign_part (strip s); l = map lower r
      in if l = ''inf'' \<or> l = ''infinity'' then Inr (Infinite (sg < 0))
         else if l = ''nan'' then Inr NaN
         else
           case number_part r of
             None \<Rightarrow> Inl ValueError
           | Some (m, nf, rest) \<Rightarrow>
               (case exponent_part rest of
                  None \<Rightarrow> Inl ValueError
                | Some x \<Rightarrow>
                    let p = x - int nf
                    in if 0 \<le> p then Inr (to_double sg (nat m * 10 ^ nat p) 1)
                       else Inr (to_double sg (nat m) (10 ^ nat (- p)))))"

text \<open>
  \<^verbatim>\<open>round(x)\<close> with one argument: the nearest integer, a tie to the even one;
  \<^verbatim>\<open>OverflowError\<close> on an infinity and \<^verbatim>\<open>ValueError\<close> on a NaN.
\<close>

definition py_round :: "pyfloat \<Rightarrow> error + int" where
  "py_round x =
     (case x of
        Finite m e \<Rightarrow> Inr (if 0 \<le> e then m * 2 ^ nat e else round_half_even m (2 ^ nat (- e)))
      | Infinite _ \<Rightarrow> Inl OverflowError
      | NaN \<Rightarrow> Inl ValueError)"

section \<open>Persistent store\<close>

text \<open>
  Modelled from the spec: \<^verbatim>\<open>src/db/tables.py\<close> and \<^verbatim>\<open>src/db/columns.py\<close> are not among the
  sources. The store is the collaborator of the spec's section 6: operations keyed by
  integer id, \<^verbatim>\<open>upsert\<close> is insert-or-replace keyed by id (id 0 asks for a new id),
  \<^verbatim>\<open>update\<close> writes one field of the row with that id, a lookup of a missing id
  returns \<^verbatim>\<open>None\<close>. Each table is an association list; every call is appended to
  \<open>calls\<close>, so that reads and writes can be counted.
\<close>

datatype field_update =
    SetQuery string
  | SetMinPrice int
  | SetMaxPrice int
  | SetOnlyHot bool

text \<open>
  A value as it travels in callback data and in a session dictionary: the aiogram
  integration carries notification ids as text and uses the integer 0 as default.
\<close>

datatype pyval = IntVal int | StrVal string

datatype db_op =
    GetNotification pyval
  | GetNotificationsOfUser int
  | UpsertNotification NotificationModel
  | UpdateNotification int field_update
  | DeleteNotification int
  | GetUser int
  | UpsertUser UserModel

record database =
  notifications :: "(int \<times> NotificationModel) list"
  users :: "(int \<times> UserModel) list"
  calls :: "db_op list"



fun set_field :: "field_update \<Rightarrow> NotificationModel \<Rightarrow> NotificationModel" where
  "set_field (SetQuery q) n = n\<lparr>n_query := q\<rparr>"
| "set_field (SetMinPrice p) n = n\<lparr>min_price := p\<rparr>"
| "set_field (SetMaxPrice p) n = n\<lparr>max_price := p\<rparr>"
| "set_field (SetOnlyHot b) n = n\<lparr>search_only_hot := b\<rparr>"

text \<open>The integer id a key denotes: a text key is compared as the integer it spells.\<close>

fun row_key :: "pyval \<Rightarrow> int option" where
  "row_key (IntVal i) = Some i"
| "row_key (StrVal s) = (case py_int s of Inr i \<Rightarrow> Some i | Inl _ \<Rightarrow> None)"

definition logged :: "db_op \<Rightarrow> database \<Rightarrow> database" where
  "logged c d = d\<lparr>calls := calls d @ [c]\<rparr>"

definition SQLiteNotifications_get_by_id ::
  "database \<Rightarrow> pyval \<Rightarrow> NotificationModel option \<times> database" where
  "SQLiteNotifications_get_by_id d k =
     ((case row_key k of None \<Rightarrow> None | Some i \<Rightarrow> map_of (notifications d) i),
      logged (GetNotification k) d)"

definition SQLiteNotifications_get_by_user_id ::
  "database \<Rightarrow> int \<Rightarrow> NotificationModel list \<times> database" where
  "SQLiteNotifications_get_by_user_id d u =
     (filter (\<lambda>n. n_user_id n = u) (map snd (notifications d)),
      logged (GetNotificationsOfUser u) d)"

definition fresh_id :: "database \<Rightarrow> int" where
  "fresh_id d = fold max (map fst (notifications d)) 0 + 1"

definition SQLiteNotifications_upsert_model ::
  "database \<Rightarrow> NotificationModel \<Rightarrow> int \<times> database" where
  "SQLiteNotifications_upsert_model d n =
     (let i = (if n_id n = 0 then fresh_id d else n_id n)
      in (i, logged (UpsertNotification n)
               (d\<lparr>notifications := AList.update i (n\<lparr>n_id := i\<rparr>) (notifications d)\<rparr>)))"

definition SQLiteNotifications_update ::
  "database \<Rightarrow> int \<Rightarrow> field_update \<Rightarrow> database" where
  "SQLiteNotifications_update d i f =
     logged (UpdateNotification i f)
       (case map_of (notifications d) i of
          None \<Rightarrow> d
        | Some n \<Rightarrow> d\<lparr>notifications := AList.update i (set_field f n) (notifications d)\<rparr>)"

definition SQLiteNotifications_delete_by_id :: "database \<Rightarrow> int \<Rightarrow> database" where
  "SQLiteNotifications_delete_by_id d i =
     logged (DeleteNotification i) (d\<lparr>notifications := AList.delete i (notifications d)\<rparr>)"

definition SQLiteUser_get_by_id :: "database \<Rightarrow> int \<Rightarrow> UserModel option \<times> database" where
  "SQLiteUser_get_by_id d i = (map_of (users d) i, logged (GetUser i) d)"

definition SQLiteUser_upsert_model :: "database \<Rightarrow> UserModel \<Rightarrow> database" where
  "SQLiteUser_upsert_model d u =
     logged (UpsertUser u) (d\<lparr>users := AList.update (u_id u) u (users d)\<rparr>)"

section \<open>Reply rendering\<close>

text \<open>
  Modelled from the spec: the \<^verbatim>\<open>messages\<close> and \<^verbatim>\<open>keyboards\<close> modules of both
  integrations are not among the sources; the spec leaves text composition and keyboard
  layout to the transport. Each rendering call is kept as a symbolic value with the
  arguments the handler passes.
\<close>

datatype reply_text =
    start_text "UserModel option"
  | query_instructions
  | price_instructions string
  | notification_overview NotificationModel
  | query_updated NotificationModel
  | invalid_price string
  | notification_not_found_text

datatype keyboard =
    start_keyboard "NotificationModel list"
  | notification_commands NotificationModel

section \<open>Callback codec of the python-telegram-bot integration\<close>

text \<open>
  Modelled from the spec: \<^verbatim>\<open>VARIABLE_PATTERN\<close> and \<^verbatim>\<open>Vars\<close> live in
  \<^verbatim>\<open>src/chat/constants.py\<close>, which is not among the sources. The spec's codec writes each
  variable as a pair delimiter, the name, a name/value delimiter and the value; the
  pair delimiter is the \<^verbatim>\<open>!\<close> that \<^verbatim>\<open>get_callback_variable\<close> searches for, the other one
  is taken to be \<^verbatim>\<open>=\<close> (the spec's \<^verbatim>\<open>name=value\<close>).
\<close>

definition VARIABLE_PATTERN :: "string \<Rightarrow> string \<Rightarrow> string" where
  "VARIABLE_PATTERN variable v = CHR ''!'' # variable @ CHR ''='' # v"

text \<open>
  Modelled from the spec: the names of the session key and of the id variable
  (\<^verbatim>\<open>Vars.NOTIFICATION\<close>, \<^verbatim>\<open>Vars.NOTIFICATION_ID\<close>); their spelling is not in the sources.
\<close>

definition Vars_NOTIFICATION :: string where
  "Vars_NOTIFICATION = ''notification''"

definition Vars_NOTIFICATION_ID :: string where
  "Vars_NOTIFICATION_ID = ''notification_id''"

text \<open>
  Modelled from the spec: \<^verbatim>\<open>encode(action, variables)\<close>, the token a keyboard button
  carries (the keyboards module is not among the sources), and the action of a token,
  the text before the first pair. The variables are in the order of the dictionary.
\<close>

definition encode :: "string \<Rightarrow> (string \<times> string) list \<Rightarrow> string" where
  "encode action variables =
     action @ concat (map (\<lambda>(k, v). VARIABLE_PATTERN k v) variables)"

definition decode_action :: "string \<Rightarrow> string" where
  "decode_action token = takeWhile (\<lambda>c. c \<noteq> CHR ''!'') token"

section \<open>The python-telegram-bot integration (src/chat/methods.py)\<close>

record CallbackQuery =
  cq_data :: "string option"
  cq_message_id :: "int option"

record Message =
  message_text :: "string option"

record Update =
  callback_query :: "CallbackQuery option"
  message :: "Message option"
  effective_user :: "int option"

text \<open>
  \<^verbatim>\<open>Methods.get_callback_variable\<close>. \<open>variable_value d p\<close> is its string part: the text
  after the first occurrence of the pattern \<open>p\<close> in the callback data \<open>d\<close>, up to the
  next \<^verbatim>\<open>!\<close> or the end.
\<close>

definition variable_value :: "string \<Rightarrow> string \<Rightarrow> string" where
  "variable_value cb_data variable_pattern =
     (let start = str_find cb_data variable_pattern 0
      in if start = - 1 then []
         else
           let start' = nat start + length variable_pattern;
               end' = (if str_find cb_data ''!'' start' \<noteq> - 1
                       then nat (str_find cb_data ''!'' start') else length cb_data)
           in slice cb_data start' end')"

definition get_callback_variable :: "Update \<Rightarrow> string \<Rightarrow> string" where
  "get_callback_variable update variable =
     (let variable_pattern = VARIABLE_PATTERN variable []
      in case callback_query update of
           None \<Rightarrow> []
         | Some q \<Rightarrow>
             (case cq_data q of
                None \<Rightarrow> []
              | Some cb_data \<Rightarrow>
                  if cb_data = [] then [] else variable_value cb_data variable_pattern))"

text \<open>
  The conversation states a handler returns to the \<^verbatim>\<open>ConversationHandler\<close>;
  \<^verbatim>\<open>END_CONVERSATION\<close> (no dialogue active) is \<open>None\<close>. The aiogram integration has the
  same four dialogues as its \<^verbatim>\<open>States\<close> group.
\<close>

datatype dialogue = ADD_NOTIFICATION | EDIT_QUERY | EDIT_MIN_PRICE | EDIT_MAX_PRICE

definition END_CONVERSATION :: "dialogue option" where
  "END_CONVERSATION = None"

text \<open>
  What \<^verbatim>\<open>context.user_data\<close> holds under a key: a \<^verbatim>\<open>NotificationModel\<close> or anything
  else. \<^verbatim>\<open>user_data\<close> itself is \<^verbatim>\<open>None\<close> when the update has no user.
\<close>

datatype user_value = NotificationValue NotificationModel | OtherValue string

datatype bot_call =
    edit_message_text reply_text
  | edit_message_reply_markup keyboard
  | remove_reply_markup int int
  | send_message int reply_text "keyboard option" "string option"

record ptb =
  user_data :: "(string \<times> user_value) list option"
  db :: database
  bot :: "bot_call list"

definition get_user_id :: "Update \<Rightarrow> error + int" where
  "get_user_id update =
     (case effective_user update of None \<Rightarrow> Inl PlainException | Some u \<Rightarrow> Inr u)"

definition get_text :: "Update \<Rightarrow> string" where
  "get_text update =
     (case message update of
        Some m \<Rightarrow> (case message_text m of Some t \<Rightarrow> t | None \<Rightarrow> ''None'')
      | None \<Rightarrow> [])"

definition get_user_data :: "ptb \<Rightarrow> string \<Rightarrow> user_value option" where
  "get_user_data w key =
     (case user_data w of
        Some d \<Rightarrow> if d \<noteq> [] then map_of d key else None
      | None \<Rightarrow> None)"

definition set_user_data :: "ptb \<Rightarrow> string \<Rightarrow> user_value \<Rightarrow> (error + unit) \<times> ptb" where
  "set_user_data w key v =
     (case user_data w of
        None \<Rightarrow> (Inl PlainException, w)
      | Some d \<Rightarrow> (Inr (), w\<lparr>user_data := Some (AList.update key v d)\<rparr>))"

definition clear_user_data :: "ptb \<Rightarrow> ptb" where
  "clear_user_data w =
     (case user_data w of
        Some d \<Rightarrow> if d \<noteq> [] then w\<lparr>user_data := Some []\<rparr> else w
      | None \<Rightarrow> w)"

definition Methods_send_message ::
  "Update \<Rightarrow> reply_text \<Rightarrow> keyboard option \<Rightarrow> string option \<Rightarrow> ptb \<Rightarrow> (error + unit) \<times> ptb" where
  "Methods_send_message update txt reply_markup parse_mode w =
     (case get_user_id update of
        Inl e \<Rightarrow> (Inl e, w)
      | Inr uid \<Rightarrow>
          let w1 = (case callback_query update of
                      None \<Rightarrow> w
                    | Some q \<Rightarrow>
                        (case cq_message_id q of
                           None \<Rightarrow> w
                         | Some mid \<Rightarrow> w\<lparr>bot := bot w @ [remove_reply_markup uid mid]\<rparr>))
          in (Inr (), w1\<lparr>bot := bot w1 @ [send_message uid txt reply_markup parse_mode]\<rparr>))"


text \<open>
  \<^verbatim>\<open>Methods.get_notification\<close>: the id variable of the callback data first, the
  record cached in the session second.
\<close>

definition Methods_get_notification :: "Update \<Rightarrow> ptb \<Rightarrow> (error + NotificationModel) \<times> ptb" where
  "Methods_get_notification update w =
     (let notification_id = get_callback_variable update Vars_NOTIFICATION_ID
      in case (if notification_id \<noteq> [] then
                 (case py_int notification_id of
                    Inl e \<Rightarrow> Inl e
                  | Inr i \<Rightarrow> Inr (SQLiteNotifications_get_by_id (db w) (IntVal i)))
               else Inr (None, db w)) of
           Inl e \<Rightarrow> (Inl e, w)
         | Inr (notification, d) \<Rightarrow>
             (let w1 = w\<lparr>db := d\<rparr>
              in (case notification of
                    Some n \<Rightarrow>
                      (case set_user_data w1 Vars_NOTIFICATION (NotificationValue n) of
                         (Inl e, w2) \<Rightarrow> (Inl e, w2)
                       | (Inr _, w2) \<Rightarrow> (Inr n, w2))
                  | None \<Rightarrow>
                      (case get_user_data w1 Vars_NOTIFICATION of
                         Some (NotificationValue n) \<Rightarrow> (Inr n, w1)
                       | _ \<Rightarrow> (Inl NotificationNotFoundError, w1)))))"

text \<open>
  The handlers assign to an attribute of the object \<^verbatim>\<open>get_notification\<close> returned.
  That object is the one stored in \<^verbatim>\<open>user_data\<close> (it was stored there or read from
  there), so the assignment changes the cached record as well.
\<close>

definition assign_cached :: "NotificationModel \<Rightarrow> ptb \<Rightarrow> ptb" where
  "assign_cached n w =
     w\<lparr>user_data := map_option (AList.update Vars_NOTIFICATION (NotificationValue n)) (user_data w)\<rparr>"


definition Methods_update_query_trigger :: "Update \<Rightarrow> ptb \<Rightarrow> (error + dialogue option) \<times> ptb" where
  "Methods_update_query_trigger update w =
     (case Methods_send_message update query_instructions None None w of
        (Inl e, w1) \<Rightarrow> (Inl e, w1)
      | (Inr _, w1) \<Rightarrow> (Inr (Some EDIT_QUERY), w1))"

definition Methods_update_min_price_trigger :: "Update \<Rightarrow> ptb \<Rightarrow> (error + dialogue option) \<times> ptb" where
  "Methods_update_min_price_trigger update w =
     (case Methods_send_message update (price_instructions ''Min'') None None w of
        (Inl e, w1) \<Rightarrow> (Inl e, w1)
      | (Inr _, w1) \<Rightarrow> (Inr (Some EDIT_MIN_PRICE), w1))"

definition Methods_update_max_price_trigger :: "Update \<Rightarrow> ptb \<Rightarrow> (error + dialogue option) \<times> ptb" where
  "Methods_update_max_price_trigger update w =
     (case Methods_send_message update (price_instructions ''Max'') None None w of
        (Inl e, w1) \<Rightarrow> (Inl e, w1)
      | (Inr _, w1) \<Rightarrow> (Inr (Some EDIT_MAX_PRICE), w1))"

text \<open>\<^verbatim>\<open>round(float(price.replace(',', '.')))\<close>, shared by the four price handlers.\<close>

definition parse_price :: "string \<Rightarrow> error + int" where
  "parse_price price =
     (case py_float (replace_char (CHR '','') (CHR ''.'') price) of
        Inl e \<Rightarrow> Inl e
      | Inr x \<Rightarrow> py_round x)"

definition Methods_update_min_price :: "Update \<Rightarrow> ptb \<Rightarrow> (error + dialogue option) \<times> ptb" where
  "Methods_update_min_price update w =
     (let price = get_text update;
          price = (if price = ''/remove'' then ''0'' else price)
      in case Methods_get_notification update w of
           (Inl e, w1) \<Rightarrow> (Inl e, w1)
         | (Inr n, w1) \<Rightarrow>
             (case parse_price price of
                Inl e \<Rightarrow> (Inl e, w1)
              | Inr p \<Rightarrow>
                  (let n' = n\<lparr>min_price := p\<rparr>;
                       w2 = assign_cached n' w1;
                       w3 = w2\<lparr>db := SQLiteNotifications_update (db w2) (n_id n') (SetMinPrice p)\<rparr>
                   in (case Methods_send_message update (query_updated n')
                              (Some (notification_commands n')) None w3 of
                         (Inl e, w4) \<Rightarrow> (Inl e, w4)
                       | (Inr _, w4) \<Rightarrow> (Inr END_CONVERSATION, w4)))))"

definition Methods_update_min_price_failed :: "Update \<Rightarrow> ptb \<Rightarrow> (error + dialogue option) \<times> ptb" where
  "Methods_update_min_price_failed update w =
     (case Methods_send_message update (invalid_price ''Min'') None None w of
        (Inl e, w1) \<Rightarrow> (Inl e, w1)
      | (Inr _, w1) \<Rightarrow> (Inr (Some EDIT_MIN_PRICE), w1))"

definition Methods_update_max_price :: "Update \<Rightarrow> ptb \<Rightarrow> (error + dialogue option) \<times> ptb" where
  "Methods_update_max_price update w =
     (let price = get_text update;
          price = (if price = ''/remove'' then ''0'' else price)
      in case Methods_get_notification update w of
           (Inl e, w1) \<Rightarrow> (Inl e, w1)
         | (Inr n, w1) \<Rightarrow>
             (case parse_price price of
                Inl e \<Rightarrow> (Inl e, w1)
              | Inr p \<Rightarrow>
                  (let n' = n\<lparr>max_price := p\<rparr>;
                       w2 = assign_cached n' w1;
                       w3 = w2\<lparr>db := SQLiteNotifications_update (db w2) (n_id n') (SetMaxPrice p)\<rparr>
                   in (case Methods_send_message update (query_updated n')
                              (Some (notification_commands n')) None w3 of
                         (Inl e, w4) \<Rightarrow> (Inl e, w4)
                       | (Inr _, w4) \<Rightarrow> (Inr END_CONVERSATION, w4)))))"

definition Methods_update_max_price_failed :: "Update \<Rightarrow> ptb \<Rightarrow> (error + dialogue option) \<times> ptb" where
  "Methods_update_max_price_failed update w =
     (case Methods_send_message update (invalid_price ''Max'') None None w of
        (Inl e, w1) \<Rightarrow> (Inl e, w1)
      | (Inr _, w1) \<Rightarrow> (Inr (Some EDIT_MAX_PRICE), w1))"


section \<open>The aiogram integration (src/telegram/handlers.py)\<close>

record Chat =
  chat_id :: int
  chat_title :: "string option"
  chat_username :: "string option"
  chat_first_name :: "string option"
  chat_last_name :: "string option"

text \<open>
  An incoming message: its chat, its text, and whether the transport lets the bot edit
  it in place (\<^verbatim>\<open>edit_text\<close> raises \<^verbatim>\<open>MessageCantBeEdited\<close> otherwise).
\<close>

record AioMessage =
  chat :: Chat
  msg_text :: string
  can_be_edited :: bool

text \<open>\<^verbatim>\<open>Union[Message, CallbackQuery]\<close>; a callback query is read through its message.\<close>

datatype telegram_object = OfMessage AioMessage | OfCallbackQuery AioMessage

fun message_of :: "telegram_object \<Rightarrow> AioMessage" where
  "message_of (OfMessage m) = m"
| "message_of (OfCallbackQuery m) = m"

datatype answer_markup = InlineKeyboard keyboard | ReplyKeyboardRemove

datatype reply =
    edit_text reply_text "keyboard option"
  | answer reply_text answer_markup

text \<open>
  The finite-state context of one user (\<^verbatim>\<open>FSMContext\<close>: the state, \<open>None\<close> when no
  dialogue is active, and the data dictionary), the store and the replies sent.
\<close>

record aio =
  fsm_state :: "dialogue option"
  fsm_data :: "(string \<times> pyval) list"
  adb :: database
  replies :: "reply list"

text \<open>\<^verbatim>\<open>Union[CallbackDataType, FSMContext]\<close>, the argument of \<^verbatim>\<open>__get_notification\<close>.\<close>

datatype source = CallbackData "(string \<times> pyval) list" | StateContext

text \<open>\<^verbatim>\<open>a or b\<close> on optional strings: the first that is neither \<^verbatim>\<open>None\<close> nor empty.\<close>

definition or_else :: "string option \<Rightarrow> string \<Rightarrow> string" where
  "or_else a b = (case a of Some x \<Rightarrow> if x \<noteq> [] then x else b | None \<Rightarrow> b)"

definition parse_telegram_chat :: "UserModel \<Rightarrow> Chat \<Rightarrow> UserModel" where
  "parse_telegram_chat u c =
     u\<lparr>u_id := chat_id c,
       username := or_else (chat_title c) (or_else (chat_username c) []),
       first_name := or_else (chat_first_name c) [],
       last_name := or_else (chat_last_name c) []\<rparr>"

text \<open>\<^verbatim>\<open>state.finish()\<close> resets the state and the data.\<close>

definition finish :: "aio \<Rightarrow> aio" where
  "finish w = w\<lparr>fsm_state := None, fsm_data := []\<rparr>"

text \<open>
  \<^verbatim>\<open>Handlers.__finish_state\<close>; the handlers modelled here always pass a context, so
  only the test of the current state remains.
\<close>

definition Handlers_finish_state :: "aio \<Rightarrow> aio" where
  "Handlers_finish_state w = (if fsm_state w \<noteq> None then finish w else w)"

definition Handlers_overwrite_or_answer ::
  "AioMessage \<Rightarrow> reply_text \<Rightarrow> keyboard option \<Rightarrow> aio \<Rightarrow> aio" where
  "Handlers_overwrite_or_answer m txt reply_markup w =
     (if can_be_edited m then w\<lparr>replies := replies w @ [edit_text txt reply_markup]\<rparr>
      else w\<lparr>replies := replies w @
                [answer txt (case reply_markup of
                               Some k \<Rightarrow> InlineKeyboard k
                             | None \<Rightarrow> ReplyKeyboardRemove)]\<rparr>)"

definition Handlers_get_user_id :: "telegram_object \<Rightarrow> int" where
  "Handlers_get_user_id src = chat_id (chat (message_of src))"

definition Handlers_get_user :: "telegram_object \<Rightarrow> aio \<Rightarrow> (error + UserModel) \<times> aio" where
  "Handlers_get_user src w =
     (let (user, d) = SQLiteUser_get_by_id (adb w) (Handlers_get_user_id src);
          w1 = w\<lparr>adb := d\<rparr>
      in case user of None \<Rightarrow> (Inl UserNotFoundError, w1) | Some u \<Rightarrow> (Inr u, w1))"

definition Handlers_store_notification_id ::
  "(string \<times> pyval) list \<Rightarrow> aio \<Rightarrow> (error + unit) \<times> aio" where
  "Handlers_store_notification_id callback_data w =
     (case map_of callback_data ''notification_id'' of
        None \<Rightarrow> (Inl KeyError, w)
      | Some v \<Rightarrow> (Inr (), w\<lparr>fsm_data := AList.update ''notification_id'' v (fsm_data w)\<rparr>))"

definition Handlers_get_notification :: "source \<Rightarrow> aio \<Rightarrow> (error + NotificationModel) \<times> aio" where
  "Handlers_get_notification src w =
     (let notification_id =
            (case src of
               StateContext \<Rightarrow>
                 (case map_of (fsm_data w) ''notification_id'' of Some v \<Rightarrow> v | None \<Rightarrow> IntVal 0)
             | CallbackData callback_data \<Rightarrow>
                 (case map_of callback_data ''notification_id'' of Some v \<Rightarrow> v | None \<Rightarrow> IntVal 0));
          (notification, d) = SQLiteNotifications_get_by_id (adb w) notification_id;
          w1 = w\<lparr>adb := d\<rparr>
      in case notification of
           None \<Rightarrow> (Inl NotificationNotFoundError, w1)
         | Some n \<Rightarrow> (Inr n, w1))"

definition Handlers_start :: "AioMessage \<Rightarrow> aio \<Rightarrow> (error + unit) \<times> aio" where
  "Handlers_start m w =
     (case (case Handlers_get_user (OfMessage m) w of
              (Inl UserNotFoundError, w1) \<Rightarrow>
                (let user = parse_telegram_chat new_UserModel (chat m)
                 in (Inr user, w1\<lparr>adb := SQLiteUser_upsert_model (adb w1) user\<rparr>))
            | r \<Rightarrow> r) of
        (Inl e, w2) \<Rightarrow> (Inl e, w2)
      | (Inr user, w2) \<Rightarrow>
          let (ns, d) = SQLiteNotifications_get_by_user_id (adb w2) (u_id user);
              w3 = w2\<lparr>adb := d\<rparr>
          in (Inr (), Handlers_overwrite_or_answer m (start_text (Some user))
                        (Some (start_keyboard ns)) w3))"

definition Handlers_start_over :: "telegram_object \<Rightarrow> aio \<Rightarrow> (error + unit) \<times> aio" where
  "Handlers_start_over src w = Handlers_start (message_of src) (Handlers_finish_state w)"


text \<open>
  The three edit triggers. \<^verbatim>\<open>States.X.set()\<close> sets the state of the current user.
\<close>

definition Handlers_edit_query ::
  "AioMessage \<Rightarrow> (string \<times> pyval) list \<Rightarrow> aio \<Rightarrow> (error + unit) \<times> aio" where
  "Handlers_edit_query query_message callback_data w =
     (case Handlers_store_notification_id callback_data w of
        (Inl e, w1) \<Rightarrow> (Inl e, w1)
      | (Inr _, w1) \<Rightarrow>
          (Inr (), Handlers_overwrite_or_answer query_message query_instructions None
                     (w1\<lparr>fsm_state := Some EDIT_QUERY\<rparr>)))"

definition Handlers_edit_min_price ::
  "AioMessage \<Rightarrow> (string \<times> pyval) list \<Rightarrow> aio \<Rightarrow> (error + unit) \<times> aio" where
  "Handlers_edit_min_price query_message callback_data w =
     (case Handlers_store_notification_id callback_data w of
        (Inl e, w1) \<Rightarrow> (Inl e, w1)
      | (Inr _, w1) \<Rightarrow>
          (Inr (), Handlers_overwrite_or_answer query_message (price_instructions ''Min'') None
                     (w1\<lparr>fsm_state := Some EDIT_MIN_PRICE\<rparr>)))"

definition Handlers_edit_max_price ::
  "AioMessage \<Rightarrow> (string \<times> pyval) list \<Rightarrow> aio \<Rightarrow> (error + unit) \<times> aio" where
  "Handlers_edit_max_price query_message callback_data w =
     (case Handlers_store_notification_id callback_data w of
        (Inl e, w1) \<Rightarrow> (Inl e, w1)
      | (Inr _, w1) \<Rightarrow>
          (Inr (), Handlers_overwrite_or_answer query_message (price_instructions ''Max'') None
                     (w1\<lparr>fsm_state := Some EDIT_MAX_PRICE\<rparr>)))"

text \<open>
  Modelled from the spec: \<^verbatim>\<open>Commands.REMOVE\<close> of \<^verbatim>\<open>src/telegram/constants.py\<close> (not among
  the sources); the spec names the literal text \<^verbatim>\<open>/remove\<close>.
\<close>

definition Commands_REMOVE :: string where
  "Commands_REMOVE = ''remove''"

definition Handlers_process_edit_min_price :: "AioMessage \<Rightarrow> aio \<Rightarrow> (error + unit) \<times> aio" where
  "Handlers_process_edit_min_price m w =
     (let price = msg_text m;
          price = (if price = CHR ''/'' # Commands_REMOVE then ''0'' else price)
      in case Handlers_get_notification StateContext w of
           (Inl e, w1) \<Rightarrow> (Inl e, w1)
         | (Inr n, w1) \<Rightarrow>
             (case parse_price price of
                Inl e \<Rightarrow> (Inl e, w1)
              | Inr p \<Rightarrow>
                  let n' = n\<lparr>min_price := p\<rparr>;
                      w2 = w1\<lparr>adb := snd (SQLiteNotifications_upsert_model (adb w1) n')\<rparr>;
                      w3 = Handlers_overwrite_or_answer m (query_updated n')
                             (Some (notification_commands n')) w2
                  in (Inr (), finish w3)))"

definition Handlers_process_edit_max_price :: "AioMessage \<Rightarrow> aio \<Rightarrow> (error + unit) \<times> aio" where
  "Handlers_process_edit_max_price m w =
     (let price = msg_text m;
          price = (if price = CHR ''/'' # Commands_REMOVE then ''0'' else price)
      in case Handlers_get_notification StateContext w of
           (Inl e, w1) \<Rightarrow> (Inl e, w1)
         | (Inr n, w1) \<Rightarrow>
             (case parse_price price of
                Inl e \<Rightarrow> (Inl e, w1)
              | Inr p \<Rightarrow>
                  let n' = n\<lparr>max_price := p\<rparr>;
                      w2 = w1\<lparr>adb := snd (SQLiteNotifications_upsert_model (adb w1) n')\<rparr>;
                      w3 = Handlers_overwrite_or_answer m (query_updated n')
                             (Some (notification_commands n')) w2
                  in (Inr (), finish w3)))"


definition Handlers_cancel :: "AioMessage \<Rightarrow> aio \<Rightarrow> (error + unit) \<times> aio" where
  "Handlers_cancel m w =
     (if fsm_state w = None then (Inr (), w)
      else
        case (case Handlers_get_notification StateContext w of
                (Inl NotificationNotFoundError, w1) \<Rightarrow> Handlers_start_over (OfMessage m) w1
              | (Inl e, w1) \<Rightarrow> (Inl e, w1)
              | (Inr n, w1) \<Rightarrow>
                  (Inr (), Handlers_overwrite_or_answer m (notification_overview n)
                             (Some (notification_commands n)) w1)) of
          (Inl e, w2) \<Rightarrow> (Inl e, w2)
        | (Inr _, w2) \<Rightarrow> (Inr (), Handlers_finish_state w2))"

text \<open>
  \<^verbatim>\<open>await state.get_state() == States.EDIT_MIN_PRICE\<close> in \<^verbatim>\<open>invalid_price\<close> compares
  the name of the current state, a string or \<^verbatim>\<open>None\<close>, with a \<^verbatim>\<open>State\<close> object. A
  \<^verbatim>\<open>State\<close> defines no equality of its own, so the comparison is false in every state.
\<close>

definition state_name_equals :: "dialogue option \<Rightarrow> dialogue \<Rightarrow> bool" where
  "state_name_equals current st = False"

definition Handlers_invalid_price :: "AioMessage \<Rightarrow> aio \<Rightarrow> (error + unit) \<times> aio" where
  "Handlers_invalid_price m w =
     (let price_type = (if state_name_equals (fsm_state w) EDIT_MIN_PRICE then ''Min'' else ''Max'')
      in (Inr (), Handlers_overwrite_or_answer m (invalid_price price_type) None w))"

section \<open>Routing of a price text\<close>

text \<open>
  Modelled from the spec: the registration of the handlers (which handler a text message
  reaches in a price dialogue) is not among the sources. The spec's section 4.3: a price
  input is valid when it parses as a decimal number after a comma is normalised to a
  period and rounds to a non-negative integer, or when it is the literal \<^verbatim>\<open>/remove\<close>;
  valid input reaches the mutating handler, any other text the handler that re-prompts.
\<close>

definition valid_price :: "string \<Rightarrow> bool" where
  "valid_price t =
     (t = ''/remove'' \<or> (case parse_price t of Inr p \<Rightarrow> 0 \<le> p | Inl _ \<Rightarrow> False))"

definition Methods_min_price_text :: "Update \<Rightarrow> ptb \<Rightarrow> (error + dialogue option) \<times> ptb" where
  "Methods_min_price_text update w =
     (if valid_price (get_text update) then Methods_update_min_price update w
      else Methods_update_min_price_failed update w)"

definition Methods_max_price_text :: "Update \<Rightarrow> ptb \<Rightarrow> (error + dialogue option) \<times> ptb" where
  "Methods_max_price_text update w =
     (if valid_price (get_text update) then Methods_update_max_price update w
      else Methods_update_max_price_failed update w)"

definition Handlers_min_price_text :: "AioMessage \<Rightarrow> aio \<Rightarrow> (error + unit) \<times> aio" where
  "Handlers_min_price_text m w =
     (if valid_price (msg_text m) then Handlers_process_edit_min_price m w
      else Handlers_invalid_price m w)"

definition Handlers_max_price_text :: "AioMessage \<Rightarrow> aio \<Rightarrow> (error + unit) \<times> aio" where
  "Handlers_max_price_text m w =
     (if valid_price (msg_text m) then Handlers_process_edit_max_price m w
      else Handlers_invalid_price m w)"

text \<open>Every row of the notification table has non-negative price bounds.\<close>

definition prices_nonneg :: "database \<Rightarrow> bool" where
  "prices_nonneg d = list_all (\<lambda>(k, n). 0 \<le> min_price n \<and> 0 \<le> max_price n) (notifications d)"

section \<open>Vocabulary of the properties\<close>

text \<open>The stored notification with id \<open>i\<close>.\<close>

definition row :: "database \<Rightarrow> int \<Rightarrow> NotificationModel option" where
  "row d i = map_of (notifications d) i"

text \<open>
  \<open>stored d n\<close>: \<open>n\<close> is a saved notification of the store, the row under its own,
  non-zero id.
\<close>

definition stored :: "database \<Rightarrow> NotificationModel \<Rightarrow> bool" where
  "stored d n = (n_id n \<noteq> 0 \<and> row d (n_id n) = Some n)"

text \<open>
  The callback data of an update carries the id \<open>i\<close>: the id variable is not empty
  and spells \<open>i\<close>. It carries no id when the variable is absent or empty.
\<close>

definition carries_id :: "Update \<Rightarrow> int \<Rightarrow> bool" where
  "carries_id update i =
     (get_callback_variable update Vars_NOTIFICATION_ID \<noteq> [] \<and>
      py_int (get_callback_variable update Vars_NOTIFICATION_ID) = Inr i)"

definition carries_no_id :: "Update \<Rightarrow> bool" where
  "carries_no_id update = (get_callback_variable update Vars_NOTIFICATION_ID = [])"

text \<open>The record the session of the python-telegram-bot integration caches.\<close>

definition cached :: "ptb \<Rightarrow> NotificationModel option" where
  "cached w =
     (case get_user_data w Vars_NOTIFICATION of
        Some (NotificationValue n) \<Rightarrow> Some n
      | _ \<Rightarrow> None)"

text \<open>
  The id a dictionary of the aiogram integration (callback data or session data) names
  under \<^verbatim>\<open>notification_id\<close>.
\<close>

definition named_id :: "(string \<times> pyval) list \<Rightarrow> int option" where
  "named_id dict =
     (case map_of dict ''notification_id'' of Some k \<Rightarrow> row_key k | None \<Rightarrow> None)"

text \<open>
  The key \<^verbatim>\<open>__get_notification\<close> looks up for a dictionary: the entry, or the integer 0.
\<close>

definition lookup_key :: "(string \<times> pyval) list \<Rightarrow> pyval" where
  "lookup_key dict =
     (case map_of dict ''notification_id'' of Some v \<Rightarrow> v | None \<Rightarrow> IntVal 0)"

text \<open>The dictionary \<^verbatim>\<open>__get_notification\<close> reads for a source.\<close>

definition dict_of :: "source \<Rightarrow> aio \<Rightarrow> (string \<times> pyval) list" where
  "dict_of src w = (case src of StateContext \<Rightarrow> fsm_data w | CallbackData cd \<Rightarrow> cd)"

subsection \<open>Sample inputs\<close>

definition sample_notification :: NotificationModel where
  "sample_notification =
     \<lparr>n_id = 7, n_user_id = 42, n_query = ''lego'', min_price = 0, max_price = 0,
      search_only_hot = False, n_search_mydealz = True, n_search_mindstar = True,
      n_search_preisjaeger = True\<rparr>"

definition other_notification :: NotificationModel where
  "other_notification =
     \<lparr>n_id = 8, n_user_id = 42, n_query = ''duplo'', min_price = 5, max_price = 20,
      search_only_hot = True, n_search_mydealz = True, n_search_mindstar = True,
      n_search_preisjaeger = True\<rparr>"

definition empty_db :: database where
  "empty_db = \<lparr>notifications = [], users = [], calls = []\<rparr>"

definition sample_db :: database where
  "sample_db = \<lparr>notifications = [(7, sample_notification)], users = [], calls = []\<rparr>"

text \<open>A button press carrying the token \<open>tok\<close>, and a text message \<open>t\<close>, of user 42.\<close>

definition callback_update :: "string \<Rightarrow> Update" where
  "callback_update tok =
     \<lparr>callback_query = Some \<lparr>cq_data = Some tok, cq_message_id = Some 1\<rparr>,
      message = None, effective_user = Some 42\<rparr>"

definition text_update :: "string \<Rightarrow> Update" where
  "text_update t =
     \<lparr>callback_query = None, message = Some \<lparr>message_text = Some t\<rparr>,
      effective_user = Some 42\<rparr>"

definition sample_ptb :: "(string \<times> user_value) list \<Rightarrow> database \<Rightarrow> ptb" where
  "sample_ptb ud d = \<lparr>user_data = Some ud, db = d, bot = []\<rparr>"

definition sample_message :: "string \<Rightarrow> AioMessage" where
  "sample_message t =
     \<lparr>chat = \<lparr>chat_id = 42, chat_title = None, chat_username = Some ''ada'',
              chat_first_name = Some ''Ada'', chat_last_name = None\<rparr>,
      msg_text = t, can_be_edited = False\<rparr>"

definition sample_aio :: "dialogue option \<Rightarrow> (string \<times> pyval) list \<Rightarrow> database \<Rightarrow> aio" where
  "sample_aio st dict d = \<lparr>fsm_state = st, fsm_data = dict, adb = d, replies = []\<rparr>"

section \<open>Properties\<close>

subsection \<open>Evaluation of the sample inputs\<close>

lemma py_int_7: "py_int ''7'' = Inr 7"
  by (simp add: py_int_def strip_def is_space_def sign_part_def is_digit_def digit_val_def)

lemma py_int_8: "py_int ''8'' = Inr 8"
  by (simp add: py_int_def strip_def is_space_def sign_part_def is_digit_def digit_val_def)

lemma carries_id_sample: "carries_id (callback_update ''show!notification_id=7'') 7"
  by (simp add: carries_id_def py_int_7 get_callback_variable_def callback_update_def
      Vars_NOTIFICATION_ID_def VARIABLE_PATTERN_def variable_value_def str_find_def slice_def)

lemma carries_no_id_text: "carries_no_id (text_update t)"
  by (simp add: carries_no_id_def get_callback_variable_def text_update_def)

lemma row_sample_db: "row sample_db i = (if i = 7 then Some sample_notification else None)"
  by (simp add: row_def sample_db_def)

lemma row_empty_db: "row empty_db i = None"
  by (simp add: row_def empty_db_def)

lemma cached_sample_ptb:
  "cached (sample_ptb [(Vars_NOTIFICATION, NotificationValue n)] d) = Some n"
  "cached (sample_ptb [] d) = None"
  by (simp_all add: cached_def get_user_data_def sample_ptb_def)

lemma named_id_sample:
  "named_id [(''notification_id'', StrVal ''7'')] = Some 7"
  "named_id [(''notification_id'', StrVal ''8'')] = Some 8"
  "named_id [] = None"
  by (simp_all add: named_id_def py_int_7 py_int_8)

lemma sample_fields:
  "db (sample_ptb ud d) = d" "user_data (sample_ptb ud d) = Some ud" "bot (sample_ptb ud d) = []"
  "adb (sample_aio st dict d) = d" "fsm_data (sample_aio st dict d) = dict"
  "fsm_state (sample_aio st dict d) = st" "replies (sample_aio st dict d) = []"
  by (simp_all add: sample_ptb_def sample_aio_def)

subsection \<open>The two resolvers\<close>

lemma Methods_get_notification_explicit:
  assumes "carries_id u i" and "row (db w) i = Some n" and "user_data w = Some ud"
  shows "Methods_get_notification u w =
           (Inr n, w\<lparr>db := logged (GetNotification (IntVal i)) (db w),
                      user_data := Some (AList.update Vars_NOTIFICATION (NotificationValue n) ud)\<rparr>)"
  using assms
  by (simp add: carries_id_def row_def Methods_get_notification_def
      SQLiteNotifications_get_by_id_def set_user_data_def logged_def)

lemma Methods_get_notification_session:
  assumes "carries_no_id u"
  shows "Methods_get_notification u w =
           (case cached w of Some m \<Rightarrow> (Inr m, w) | None \<Rightarrow> (Inl NotificationNotFoundError, w))"
  using assms
  by (simp add: carries_no_id_def cached_def Methods_get_notification_def
      split: option.splits user_value.splits)

lemma Methods_get_notification_unknown:
  assumes "carries_id u i" and "row (db w) i = None"
  shows "fst (Methods_get_notification u w) =
           (case cached w of Some m \<Rightarrow> Inr m | None \<Rightarrow> Inl NotificationNotFoundError)"
  using assms
  by (simp add: carries_id_def row_def cached_def Methods_get_notification_def
      SQLiteNotifications_get_by_id_def get_user_data_def logged_def
      split: option.splits user_value.splits)

lemma Handlers_get_notification_eq:
  "Handlers_get_notification src w =
     (let k = (case src of StateContext \<Rightarrow> lookup_key (fsm_data w) | CallbackData cd \<Rightarrow> lookup_key cd);
          w1 = w\<lparr>adb := logged (GetNotification k) (adb w)\<rparr>
      in case (case row_key k of None \<Rightarrow> None | Some i \<Rightarrow> row (adb w) i) of
           None \<Rightarrow> (Inl NotificationNotFoundError, w1)
         | Some n \<Rightarrow> (Inr n, w1))"
  unfolding Handlers_get_notification_def lookup_key_def row_def
    SQLiteNotifications_get_by_id_def Let_def
  by (cases src) (simp_all split: option.splits)

lemma named_id_row_key:
  "named_id dict = Some i \<Longrightarrow> row_key (lookup_key dict) = Some i"
  by (simp add: named_id_def lookup_key_def split: option.splits)

lemma named_id_none_row_key:
  "named_id dict = None \<Longrightarrow> row_key (lookup_key dict) = None \<or> row_key (lookup_key dict) = Some 0"
  by (simp add: named_id_def lookup_key_def split: option.splits)

subsection \<open>C1: resolver precedence\<close>

text \<open>
  Claim C1. An id carried by the callback data wins: when it names a stored notification,
  both resolvers return that row, whatever the session holds. Without an id in the
  callback data (the aiogram handlers then pass the state context), a session pinned to
  a notification yields that notification: the cached record in the python-telegram-bot
  integration, the row of the pinned id in the aiogram integration. When neither source
  yields a record, both raise \<^verbatim>\<open>NotificationNotFoundError\<close>. The id of a callback is a
  decimal integer; in the aiogram integration a dictionary without an entry is looked
  up as id 0, which is no saved notification.
\<close>

theorem resolver_precedence:
  "(carries_id u1 i \<and> row (db w1) i = Some n \<and> user_data w1 = Some ud
      \<longrightarrow> fst (Methods_get_notification u1 w1) = Inr n)
   \<and> (named_id cd = Some i' \<and> row (adb a1) i' = Some n'
      \<longrightarrow> fst (Handlers_get_notification (CallbackData cd) a1) = Inr n')
   \<and> (carries_no_id u2 \<and> cached w2 = Some m
      \<longrightarrow> fst (Methods_get_notification u2 w2) = Inr m)
   \<and> (named_id (fsm_data a2) = Some j \<and> row (adb a2) j = Some m'
      \<longrightarrow> fst (Handlers_get_notification StateContext a2) = Inr m')
   \<and> ((carries_no_id u3 \<or> (carries_id u3 k \<and> row (db w3) k = None)) \<and> cached w3 = None
      \<longrightarrow> fst (Methods_get_notification u3 w3) = Inl NotificationNotFoundError)
   \<and> ((case named_id (dict_of src a3) of Some k' \<Rightarrow> row (adb a3) k' = None
        | None \<Rightarrow> row (adb a3) 0 = None)
      \<longrightarrow> fst (Handlers_get_notification src a3) = Inl NotificationNotFoundError)"
proof (intro conjI impI)
  assume "carries_id u1 i \<and> row (db w1) i = Some n \<and> user_data w1 = Some ud"
  then have "carries_id u1 i" and "row (db w1) i = Some n" and "user_data w1 = Some ud"
    by simp_all
  then show "fst (Methods_get_notification u1 w1) = Inr n"
    by (simp add: Methods_get_notification_explicit [of u1 i w1 n ud])
next
  assume "named_id cd = Some i' \<and> row (adb a1) i' = Some n'"
  then show "fst (Handlers_get_notification (CallbackData cd) a1) = Inr n'"
    by (simp add: Handlers_get_notification_eq named_id_row_key)
next
  assume "carries_no_id u2 \<and> cached w2 = Some m"
  then show "fst (Methods_get_notification u2 w2) = Inr m"
    by (simp add: Methods_get_notification_session)
next
  assume "named_id (fsm_data a2) = Some j \<and> row (adb a2) j = Some m'"
  then show "fst (Handlers_get_notification StateContext a2) = Inr m'"
    by (simp add: Handlers_get_notification_eq named_id_row_key)
next
  assume h: "(carries_no_id u3 \<or> (carries_id u3 k \<and> row (db w3) k = None)) \<and> cached w3 = None"
  then show "fst (Methods_get_notification u3 w3) = Inl NotificationNotFoundError"
    by (auto simp add: Methods_get_notification_session Methods_get_notification_unknown [of u3 k w3])
next
  assume h: "case named_id (dict_of src a3) of Some k' \<Rightarrow> row (adb a3) k' = None
             | None \<Rightarrow> row (adb a3) 0 = None"
  have k: "lookup_key (dict_of src a3) =
             (case src of StateContext \<Rightarrow> lookup_key (fsm_data a3) | CallbackData cd \<Rightarrow> lookup_key cd)"
    by (cases src) (simp_all add: dict_of_def)
  show "fst (Handlers_get_notification src a3) = Inl NotificationNotFoundError"
  proof (cases "named_id (dict_of src a3)")
    case None
    with h named_id_none_row_key [OF None] show ?thesis
      by (auto simp add: Handlers_get_notification_eq k [symmetric])
  next
    case (Some k')
    with h named_id_row_key [OF Some] show ?thesis
      by (simp add: Handlers_get_notification_eq k [symmetric])
  qed
qed

theorem resolver_precedence_witness:
  "fst (Methods_get_notification (callback_update ''show!notification_id=7'')
          (sample_ptb [(Vars_NOTIFICATION, NotificationValue other_notification)] sample_db))
     = Inr sample_notification
   \<and> fst (Handlers_get_notification (CallbackData [(''notification_id'', StrVal ''7'')])
            (sample_aio None [(''notification_id'', StrVal ''8'')] sample_db))
     = Inr sample_notification
   \<and> fst (Methods_get_notification (text_update ''hello'')
            (sample_ptb [(Vars_NOTIFICATION, NotificationValue sample_notification)] sample_db))
     = Inr sample_notification
   \<and> fst (Handlers_get_notification StateContext
            (sample_aio (Some EDIT_QUERY) [(''notification_id'', StrVal ''7'')] sample_db))
     = Inr sample_notification
   \<and> fst (Methods_get_notification (text_update ''hello'') (sample_ptb [] sample_db))
     = Inl NotificationNotFoundError
   \<and> fst (Handlers_get_notification StateContext (sample_aio None [] sample_db))
     = Inl NotificationNotFoundError"
  using resolver_precedence
    [where ?u1.0 = "callback_update ''show!notification_id=7''" and i = 7
       and ?w1.0 = "sample_ptb [(Vars_NOTIFICATION, NotificationValue other_notification)] sample_db"
       and n = sample_notification
       and ud = "[(Vars_NOTIFICATION, NotificationValue other_notification)]"
       and cd = "[(''notification_id'', StrVal ''7'')]" and i' = 7 and n' = sample_notification
       and ?a1.0 = "sample_aio None [(''notification_id'', StrVal ''8'')] sample_db"
       and ?u2.0 = "text_update ''hello''" and m = sample_notification
       and ?w2.0 = "sample_ptb [(Vars_NOTIFICATION, NotificationValue sample_notification)] sample_db"
       and ?a2.0 = "sample_aio (Some EDIT_QUERY) [(''notification_id'', StrVal ''7'')] sample_db"
       and j = 7 and m' = sample_notification
       and ?u3.0 = "text_update ''hello''" and ?w3.0 = "sample_ptb [] sample_db" and k = 0
       and src = StateContext and ?a3.0 = "sample_aio None [] sample_db"]
  by (simp add: carries_id_sample carries_no_id_text row_sample_db cached_sample_ptb
      named_id_sample sample_fields dict_of_def)

subsection \<open>Sessions, replies and the store\<close>

lemma cached_after_update:
  "user_data w = Some ud \<Longrightarrow>
   cached (w\<lparr>user_data := Some (AList.update Vars_NOTIFICATION (NotificationValue n) ud)\<rparr>) = Some n"
  by (simp add: cached_def get_user_data_def update_conv')

lemma Handlers_get_notification_session_frame:
  "fsm_data (snd (Handlers_get_notification src a)) = fsm_data a"
  "fsm_state (snd (Handlers_get_notification src a)) = fsm_state a"
  "replies (snd (Handlers_get_notification src a)) = replies a"
  by (simp_all add: Handlers_get_notification_eq Let_def split: option.splits)

lemma Handlers_get_notification_row:
  "named_id (dict_of src a) = Some j \<Longrightarrow>
   fst (Handlers_get_notification src a) =
     (case row (adb a) j of Some r \<Rightarrow> Inr r | None \<Rightarrow> Inl NotificationNotFoundError)"
  by (cases src)
     (simp_all add: Handlers_get_notification_eq dict_of_def named_id_row_key Let_def
        split: option.splits)

lemma Handlers_get_notification_pinned:
  assumes "named_id (fsm_data a) = Some i" and "row (adb a) i = Some r"
  shows "Handlers_get_notification StateContext a =
           (Inr r, a\<lparr>adb := logged (GetNotification (lookup_key (fsm_data a))) (adb a)\<rparr>)"
  using assms by (simp add: Handlers_get_notification_eq named_id_row_key)

lemma Methods_send_message_frame:
  "user_data (snd (Methods_send_message u t k p w)) = user_data w"
  "db (snd (Methods_send_message u t k p w)) = db w"
  by (simp_all add: Methods_send_message_def Let_def split: sum.splits option.splits)

lemma Methods_send_message_eq:
  "effective_user u = Some uid \<Longrightarrow>
   Methods_send_message u t k p w =
     (Inr (), w\<lparr>bot := bot w @
        (case callback_query u of
           None \<Rightarrow> []
         | Some q \<Rightarrow> (case cq_message_id q of None \<Rightarrow> [] | Some mid \<Rightarrow> [remove_reply_markup uid mid]))
        @ [send_message uid t k p]\<rparr>)"
  by (simp add: Methods_send_message_def get_user_id_def Let_def split: option.splits)

lemma Handlers_overwrite_or_answer_frame:
  "fsm_data (Handlers_overwrite_or_answer m t k a) = fsm_data a"
  "fsm_state (Handlers_overwrite_or_answer m t k a) = fsm_state a"
  "adb (Handlers_overwrite_or_answer m t k a) = adb a"
  by (simp_all add: Handlers_overwrite_or_answer_def)

lemma named_id_update:
  "named_id (AList.update ''notification_id'' v dict) = row_key v"
  by (simp add: named_id_def update_conv')

lemma row_logged: "row (logged c d) j = row d j"
  by (simp add: row_def logged_def)

lemma row_update:
  "row (SQLiteNotifications_update d i f) j =
     (if j = i then map_option (set_field f) (row d i) else row d j)"
  by (simp add: SQLiteNotifications_update_def row_logged split: option.splits)
     (simp add: row_def update_conv')

lemma row_upsert:
  "row (snd (SQLiteNotifications_upsert_model d n)) j =
     (let i = (if n_id n = 0 then fresh_id d else n_id n)
      in if j = i then Some (n\<lparr>n_id := i\<rparr>) else row d j)"
  by (simp add: SQLiteNotifications_upsert_model_def Let_def row_logged)
     (simp add: row_def update_conv')

subsection \<open>The price handlers\<close>

lemma parse_price_12_50: "parse_price ''12,50'' = Inr 12"
  by (simp add: parse_price_def replace_char_def py_float_def py_round_def strip_def is_space_def
      sign_part_def lower_def number_part_def is_digit_def digit_val_def exponent_part_def
      to_double_def floor_log2_def round_half_even_def Let_def)

lemma get_text_text_update: "get_text (text_update t) = t"
  by (simp add: get_text_def text_update_def)

lemma effective_user_sample:
  "effective_user (text_update t) = Some 42" "effective_user (callback_update t) = Some 42"
  by (simp_all add: text_update_def callback_update_def)

lemma Methods_update_min_price_failed_lookup:
  "fst (Methods_get_notification u w) = Inl e \<Longrightarrow> fst (Methods_update_min_price u w) = Inl e"
  by (cases "Methods_get_notification u w")
     (simp add: Methods_update_min_price_def Let_def)

lemma Methods_update_min_price_session:
  assumes "carries_no_id u" and "cached w = Some m" and "effective_user u = Some uid"
    and "parse_price (if get_text u = ''/remove'' then ''0'' else get_text u) = Inr p"
  shows "fst (Methods_update_min_price u w) = Inr END_CONVERSATION"
    and "db (snd (Methods_update_min_price u w)) =
           SQLiteNotifications_update (db w) (n_id m) (SetMinPrice p)"
  using assms
  by (simp_all add: Methods_update_min_price_def Methods_get_notification_session Let_def
      Methods_send_message_eq assign_cached_def)

lemma Methods_update_max_price_session:
  assumes "carries_no_id u" and "cached w = Some m" and "effective_user u = Some uid"
    and "parse_price (if get_text u = ''/remove'' then ''0'' else get_text u) = Inr p"
  shows "fst (Methods_update_max_price u w) = Inr END_CONVERSATION"
    and "db (snd (Methods_update_max_price u w)) =
           SQLiteNotifications_update (db w) (n_id m) (SetMaxPrice p)"
  using assms
  by (simp_all add: Methods_update_max_price_def Methods_get_notification_session Let_def
      Methods_send_message_eq assign_cached_def)

lemma Handlers_process_edit_min_price_pinned:
  assumes "named_id (fsm_data a) = Some i" and "row (adb a) i = Some r"
    and "parse_price (if msg_text m = CHR ''/'' # Commands_REMOVE then ''0'' else msg_text m) = Inr p"
  shows "fst (Handlers_process_edit_min_price m a) = Inr ()"
    and "fsm_state (snd (Handlers_process_edit_min_price m a)) = None"
    and "fsm_data (snd (Handlers_process_edit_min_price m a)) = []"
    and "adb (snd (Handlers_process_edit_min_price m a)) =
           snd (SQLiteNotifications_upsert_model
                  (logged (GetNotification (lookup_key (fsm_data a))) (adb a)) (r\<lparr>min_price := p\<rparr>))"
  using assms(3)
  by (simp_all add: Handlers_process_edit_min_price_def Handlers_get_notification_pinned [OF assms(1,2)]
      Let_def finish_def Handlers_overwrite_or_answer_frame)

lemma stored_sample_db: "stored sample_db sample_notification"
  by (simp add: stored_def row_sample_db) (simp add: sample_notification_def)

lemma n_id_sample: "n_id sample_notification = 7"
  by (simp add: sample_notification_def)

lemma msg_text_sample: "msg_text (sample_message t) = t"
  by (simp add: sample_message_def)

lemma carries_id_edit_sample: "carries_id (callback_update ''edit_min_price!notification_id=7'') 7"
  by (simp add: carries_id_def py_int_7 get_callback_variable_def callback_update_def
      Vars_NOTIFICATION_ID_def VARIABLE_PATTERN_def variable_value_def str_find_def slice_def)

subsection \<open>C3: the price text 12,50\<close>

text \<open>
  Claim C3, as amended. In the minimum-price dialogue with the session pinned to a stored
  notification, the text \<^verbatim>\<open>12,50\<close> ends the dialogue and the store receives
  \<open>min_price = 12\<close> for that notification: the comma becomes a period, \<^verbatim>\<open>float\<close> reads
  12.5 exactly, and \<^verbatim>\<open>round\<close> takes a tie to the even neighbour. The first half is
  \<^verbatim>\<open>Methods.update_min_price\<close> (it returns \<^verbatim>\<open>END_CONVERSATION\<close>), the second
  \<^verbatim>\<open>Handlers.process_edit_min_price\<close> (it finishes the state).
\<close>

theorem price_input_rounds_to_even:
  "(carries_no_id u \<and> get_text u = ''12,50'' \<and> effective_user u = Some uid
      \<and> cached w = Some c \<and> row (db w) (n_id c) = Some r \<longrightarrow>
        fst (Methods_update_min_price u w) = Inr END_CONVERSATION
        \<and> row (db (snd (Methods_update_min_price u w))) (n_id c) = Some (r\<lparr>min_price := 12\<rparr>))
   \<and> (fsm_state a = Some EDIT_MIN_PRICE \<and> named_id (fsm_data a) = Some (n_id r')
      \<and> stored (adb a) r' \<and> msg_text m = ''12,50'' \<longrightarrow>
        fst (Handlers_process_edit_min_price m a) = Inr ()
        \<and> fsm_state (snd (Handlers_process_edit_min_price m a)) = None
        \<and> row (adb (snd (Handlers_process_edit_min_price m a))) (n_id r')
            = Some (r'\<lparr>min_price := 12\<rparr>))"
proof (intro conjI impI)
  assume h: "carries_no_id u \<and> get_text u = ''12,50'' \<and> effective_user u = Some uid
      \<and> cached w = Some c \<and> row (db w) (n_id c) = Some r"
  then have p: "parse_price (if get_text u = ''/remove'' then ''0'' else get_text u) = Inr 12"
    by (simp add: parse_price_12_50)
  from h show "fst (Methods_update_min_price u w) = Inr END_CONVERSATION"
    using Methods_update_min_price_session(1) [OF _ _ _ p] by blast
  from h have "db (snd (Methods_update_min_price u w)) =
      SQLiteNotifications_update (db w) (n_id c) (SetMinPrice 12)"
    using Methods_update_min_price_session(2) [OF _ _ _ p] by blast
  with h show "row (db (snd (Methods_update_min_price u w))) (n_id c) = Some (r\<lparr>min_price := 12\<rparr>)"
    by (simp add: row_update)
next
  assume h: "fsm_state a = Some EDIT_MIN_PRICE \<and> named_id (fsm_data a) = Some (n_id r')
      \<and> stored (adb a) r' \<and> msg_text m = ''12,50''"
  then have p: "parse_price (if msg_text m = CHR ''/'' # Commands_REMOVE then ''0'' else msg_text m) = Inr 12"
    by (simp add: parse_price_12_50 Commands_REMOVE_def)
  from h have n: "named_id (fsm_data a) = Some (n_id r')" and r: "row (adb a) (n_id r') = Some r'"
    and z: "n_id r' \<noteq> 0"
    by (simp_all add: stored_def)
  note e = Handlers_process_edit_min_price_pinned [OF n r p]
  show "fst (Handlers_process_edit_min_price m a) = Inr ()" by (rule e(1))
  show "fsm_state (snd (Handlers_process_edit_min_price m a)) = None" by (rule e(2))
  show "row (adb (snd (Handlers_process_edit_min_price m a))) (n_id r') = Some (r'\<lparr>min_price := 12\<rparr>)"
    using z by (simp add: e(4) row_upsert)
qed

text \<open>The theorem at the sample store, for both integrations.\<close>

theorem price_input_rounds_to_even_witness:
  "fst (Methods_update_min_price (text_update ''12,50'')
          (sample_ptb [(Vars_NOTIFICATION, NotificationValue sample_notification)] sample_db))
     = Inr END_CONVERSATION
   \<and> row (db (snd (Methods_update_min_price (text_update ''12,50'')
          (sample_ptb [(Vars_NOTIFICATION, NotificationValue sample_notification)] sample_db)))) 7
     = Some (sample_notification\<lparr>min_price := 12\<rparr>)
   \<and> fst (Handlers_process_edit_min_price (sample_message ''12,50'')
            (sample_aio (Some EDIT_MIN_PRICE) [(''notification_id'', StrVal ''7'')] sample_db))
     = Inr ()
   \<and> fsm_state (snd (Handlers_process_edit_min_price (sample_message ''12,50'')
            (sample_aio (Some EDIT_MIN_PRICE) [(''notification_id'', StrVal ''7'')] sample_db)))
     = None
   \<and> row (adb (snd (Handlers_process_edit_min_price (sample_message ''12,50'')
            (sample_aio (Some EDIT_MIN_PRICE) [(''notification_id'', StrVal ''7'')] sample_db)))) 7
     = Some (sample_notification\<lparr>min_price := 12\<rparr>)"
  using price_input_rounds_to_even
    [of "text_update ''12,50''" 42
        "sample_ptb [(Vars_NOTIFICATION, NotificationValue sample_notification)] sample_db"
        sample_notification sample_notification
        "sample_aio (Some EDIT_MIN_PRICE) [(''notification_id'', StrVal ''7'')] sample_db"
        sample_notification "sample_message ''12,50''"]
  by (simp add: carries_no_id_text get_text_text_update effective_user_sample cached_sample_ptb
      sample_fields row_sample_db n_id_sample named_id_sample stored_sample_db msg_text_sample)

text \<open>
  The claim as stated expects 13. In neither integration does the stored minimum price
  of notification 7 become 13 after the text \<^verbatim>\<open>12,50\<close>.
\<close>

theorem price_input_counterexample:
  "map_option min_price
     (row (db (snd (Methods_update_min_price (text_update ''12,50'')
          (sample_ptb [(Vars_NOTIFICATION, NotificationValue sample_notification)] sample_db)))) 7)
     \<noteq> Some 13
   \<and> map_option min_price
     (row (adb (snd (Handlers_process_edit_min_price (sample_message ''12,50'')
          (sample_aio (Some EDIT_MIN_PRICE) [(''notification_id'', StrVal ''7'')] sample_db)))) 7)
     \<noteq> Some 13"
proof -
  have p: "parse_price (if get_text (text_update ''12,50'') = ''/remove'' then ''0''
                        else get_text (text_update ''12,50'')) = Inr 12"
    by (simp add: get_text_text_update parse_price_12_50)
  have q: "parse_price (if msg_text (sample_message ''12,50'') = CHR ''/'' # Commands_REMOVE then ''0''
                        else msg_text (sample_message ''12,50'')) = Inr 12"
    by (simp add: msg_text_sample parse_price_12_50 Commands_REMOVE_def)
  have "db (snd (Methods_update_min_price (text_update ''12,50'')
          (sample_ptb [(Vars_NOTIFICATION, NotificationValue sample_notification)] sample_db)))
        = SQLiteNotifications_update sample_db 7 (SetMinPrice 12)"
    using Methods_update_min_price_session(2)
      [OF carries_no_id_text cached_sample_ptb(1) effective_user_sample(1) p,
        of sample_notification sample_db]
    by (simp add: sample_fields n_id_sample)
  moreover have "adb (snd (Handlers_process_edit_min_price (sample_message ''12,50'')
          (sample_aio (Some EDIT_MIN_PRICE) [(''notification_id'', StrVal ''7'')] sample_db)))
        = snd (SQLiteNotifications_upsert_model
                 (logged (GetNotification (StrVal ''7'')) sample_db)
                 (sample_notification\<lparr>min_price := 12\<rparr>))"
    using Handlers_process_edit_min_price_pinned(4)
      [of "sample_aio (Some EDIT_MIN_PRICE) [(''notification_id'', StrVal ''7'')] sample_db" 7
          sample_notification "sample_message ''12,50''" 12, OF _ _ q]
    by (simp add: sample_fields named_id_sample row_sample_db lookup_key_def)
  ultimately show ?thesis
    by (simp add: row_update row_upsert row_logged row_sample_db n_id_sample)
qed

subsection \<open>C4: the session fallback and the store\<close>

text \<open>
  Claim C4, as amended. For a call without an id in the callback data, the resolver of
  the python-telegram-bot integration returns the record cached in the session whenever
  one is cached, without a call to the store (the whole state is unchanged), and raises
  \<^verbatim>\<open>NotificationNotFoundError\<close> only when nothing is cached. The resolver of the
  aiogram integration looks the pinned id up in the store at call time: it returns the
  stored row, and raises \<^verbatim>\<open>NotificationNotFoundError\<close> when the row no longer exists.
\<close>

theorem session_fallback:
  "(carries_no_id u \<longrightarrow>
      Methods_get_notification u w =
        (case cached w of Some m \<Rightarrow> (Inr m, w) | None \<Rightarrow> (Inl NotificationNotFoundError, w)))
   \<and> (named_id (fsm_data a) = Some j \<longrightarrow>
      fst (Handlers_get_notification StateContext a) =
        (case row (adb a) j of Some r \<Rightarrow> Inr r | None \<Rightarrow> Inl NotificationNotFoundError))"
  by (simp add: Methods_get_notification_session Handlers_get_notification_row dict_of_def)

text \<open>Both halves where nothing can be returned: an empty session, a deleted row.\<close>

theorem session_fallback_witness:
  "Methods_get_notification (text_update ''5'') (sample_ptb [] sample_db)
     = (Inl NotificationNotFoundError, sample_ptb [] sample_db)
   \<and> fst (Handlers_get_notification StateContext
            (sample_aio (Some EDIT_MIN_PRICE) [(''notification_id'', StrVal ''7'')] empty_db))
     = Inl NotificationNotFoundError"
  using session_fallback [of "text_update ''5''" "sample_ptb [] sample_db"
      "sample_aio (Some EDIT_MIN_PRICE) [(''notification_id'', StrVal ''7'')] empty_db" 7]
  by (simp add: carries_no_id_text cached_sample_ptb named_id_sample sample_fields row_empty_db)

text \<open>
  The claim as stated fails in the python-telegram-bot integration: the session caches
  notification 7, the store no longer has a row 7, and the resolver returns the cached
  record.
\<close>

theorem session_fallback_counterexample:
  "row empty_db (n_id sample_notification) = None
   \<and> fst (Methods_get_notification (text_update ''5'')
            (sample_ptb [(Vars_NOTIFICATION, NotificationValue sample_notification)] empty_db))
     = Inr sample_notification"
  by (simp add: row_empty_db Methods_get_notification_session carries_no_id_text cached_sample_ptb)

subsection \<open>C5: what an edit trigger pins\<close>

text \<open>
  Claim C5, as amended. Each edit trigger of the aiogram integration (\<^verbatim>\<open>edit_query\<close>,
  \<^verbatim>\<open>edit_min_price\<close>, \<^verbatim>\<open>edit_max_price\<close>), called with callback data naming the
  notification \<open>i\<close>, stores that id in the session and sets the matching state, so that
  the resolver then finds the row from the session alone. The triggers of the
  python-telegram-bot integration return the matching state and leave the session as it
  was: there the target of the text turn is whatever an earlier resolver call cached.
\<close>

theorem edit_trigger_pins:
  "(named_id cd = Some i \<longrightarrow>
      fst (Handlers_edit_query qm cd a) = Inr ()
      \<and> fsm_state (snd (Handlers_edit_query qm cd a)) = Some EDIT_QUERY
      \<and> named_id (fsm_data (snd (Handlers_edit_query qm cd a))) = Some i
      \<and> fst (Handlers_edit_min_price qm cd a) = Inr ()
      \<and> fsm_state (snd (Handlers_edit_min_price qm cd a)) = Some EDIT_MIN_PRICE
      \<and> named_id (fsm_data (snd (Handlers_edit_min_price qm cd a))) = Some i
      \<and> fst (Handlers_edit_max_price qm cd a) = Inr ()
      \<and> fsm_state (snd (Handlers_edit_max_price qm cd a)) = Some EDIT_MAX_PRICE
      \<and> named_id (fsm_data (snd (Handlers_edit_max_price qm cd a))) = Some i
      \<and> (row (adb a) i = Some r \<longrightarrow>
           fst (Handlers_get_notification StateContext (snd (Handlers_edit_min_price qm cd a))) = Inr r))
   \<and> user_data (snd (Methods_update_query_trigger u w)) = user_data w
   \<and> user_data (snd (Methods_update_min_price_trigger u w)) = user_data w
   \<and> user_data (snd (Methods_update_max_price_trigger u w)) = user_data w
   \<and> (effective_user u = Some uid \<longrightarrow>
        fst (Methods_update_query_trigger u w) = Inr (Some EDIT_QUERY)
        \<and> fst (Methods_update_min_price_trigger u w) = Inr (Some EDIT_MIN_PRICE)
        \<and> fst (Methods_update_max_price_trigger u w) = Inr (Some EDIT_MAX_PRICE))"
proof (intro conjI impI)
  assume h: "named_id cd = Some i"
  then obtain v where v: "map_of cd ''notification_id'' = Some v" and k: "row_key v = Some i"
    by (auto simp add: named_id_def split: option.splits)
  have s: "Handlers_store_notification_id cd a =
             (Inr (), a\<lparr>fsm_data := AList.update ''notification_id'' v (fsm_data a)\<rparr>)"
    by (simp add: Handlers_store_notification_id_def v)
  show "fst (Handlers_edit_query qm cd a) = Inr ()"
    "fst (Handlers_edit_min_price qm cd a) = Inr ()"
    "fst (Handlers_edit_max_price qm cd a) = Inr ()"
    by (simp_all add: Handlers_edit_query_def Handlers_edit_min_price_def Handlers_edit_max_price_def s)
  show "fsm_state (snd (Handlers_edit_query qm cd a)) = Some EDIT_QUERY"
    "fsm_state (snd (Handlers_edit_min_price qm cd a)) = Some EDIT_MIN_PRICE"
    "fsm_state (snd (Handlers_edit_max_price qm cd a)) = Some EDIT_MAX_PRICE"
    by (simp_all add: Handlers_edit_query_def Handlers_edit_min_price_def Handlers_edit_max_price_def s
        Handlers_overwrite_or_answer_frame)
  show "named_id (fsm_data (snd (Handlers_edit_query qm cd a))) = Some i"
    "named_id (fsm_data (snd (Handlers_edit_max_price qm cd a))) = Some i"
    by (simp_all add: Handlers_edit_query_def Handlers_edit_max_price_def s
        Handlers_overwrite_or_answer_frame named_id_update k)
  show p: "named_id (fsm_data (snd (Handlers_edit_min_price qm cd a))) = Some i"
    by (simp add: Handlers_edit_min_price_def s Handlers_overwrite_or_answer_frame named_id_update k)
  show "fst (Handlers_get_notification StateContext (snd (Handlers_edit_min_price qm cd a))) = Inr r"
    if "row (adb a) i = Some r"
  proof -
    have "adb (snd (Handlers_edit_min_price qm cd a)) = adb a"
      by (simp add: Handlers_edit_min_price_def s Handlers_overwrite_or_answer_frame)
    with that p show ?thesis
      by (simp add: Handlers_get_notification_row [of StateContext _ i] dict_of_def)
  qed
next
  assume "effective_user u = Some uid"
  then show "fst (Methods_update_query_trigger u w) = Inr (Some EDIT_QUERY)"
    "fst (Methods_update_min_price_trigger u w) = Inr (Some EDIT_MIN_PRICE)"
    "fst (Methods_update_max_price_trigger u w) = Inr (Some EDIT_MAX_PRICE)"
    by (simp_all add: Methods_update_query_trigger_def Methods_update_min_price_trigger_def
        Methods_update_max_price_trigger_def Methods_send_message_def get_user_id_def Let_def)
qed (simp_all add: Methods_update_query_trigger_def Methods_update_min_price_trigger_def
        Methods_update_max_price_trigger_def Methods_send_message_def get_user_id_def Let_def
        split: option.splits)

text \<open>The theorem for a button of notification 7 and an empty session.\<close>

theorem edit_trigger_pins_witness:
  "fst (Handlers_edit_min_price (sample_message []) [(''notification_id'', StrVal ''7'')]
          (sample_aio None [] sample_db)) = Inr ()
   \<and> fsm_state (snd (Handlers_edit_min_price (sample_message []) [(''notification_id'', StrVal ''7'')]
          (sample_aio None [] sample_db))) = Some EDIT_MIN_PRICE
   \<and> named_id (fsm_data (snd (Handlers_edit_min_price (sample_message [])
          [(''notification_id'', StrVal ''7'')] (sample_aio None [] sample_db)))) = Some 7
   \<and> fst (Handlers_get_notification StateContext
            (snd (Handlers_edit_min_price (sample_message []) [(''notification_id'', StrVal ''7'')]
                    (sample_aio None [] sample_db)))) = Inr sample_notification
   \<and> fst (Methods_update_min_price_trigger (callback_update ''edit_min_price!notification_id=7'')
            (sample_ptb [] sample_db)) = Inr (Some EDIT_MIN_PRICE)
   \<and> user_data (snd (Methods_update_min_price_trigger
            (callback_update ''edit_min_price!notification_id=7'') (sample_ptb [] sample_db))) = Some []"
  using edit_trigger_pins [of "[(''notification_id'', StrVal ''7'')]" 7 "sample_message []"
      "sample_aio None [] sample_db" sample_notification
      "callback_update ''edit_min_price!notification_id=7''" "sample_ptb [] sample_db" 42]
  by (simp add: named_id_sample row_sample_db sample_fields effective_user_sample)

text \<open>
  The claim as stated fails for \<^verbatim>\<open>Methods.update_min_price_trigger\<close>: the callback names
  the stored notification 7, the trigger moves to the minimum-price dialogue, the session
  still caches nothing, and the text turn that follows cannot resolve the notification.
\<close>

theorem edit_trigger_counterexample:
  "carries_id (callback_update ''edit_min_price!notification_id=7'') 7
   \<and> row sample_db 7 = Some sample_notification
   \<and> fst (Methods_update_min_price_trigger (callback_update ''edit_min_price!notification_id=7'')
            (sample_ptb [] sample_db)) = Inr (Some EDIT_MIN_PRICE)
   \<and> cached (snd (Methods_update_min_price_trigger
            (callback_update ''edit_min_price!notification_id=7'') (sample_ptb [] sample_db))) = None
   \<and> fst (Methods_update_min_price (text_update ''5'')
            (snd (Methods_update_min_price_trigger
                    (callback_update ''edit_min_price!notification_id=7'') (sample_ptb [] sample_db))))
     = Inl NotificationNotFoundError"
proof -
  let ?w = "snd (Methods_update_min_price_trigger
                   (callback_update ''edit_min_price!notification_id=7'') (sample_ptb [] sample_db))"
  have t: "Methods_update_min_price_trigger (callback_update ''edit_min_price!notification_id=7'')
             (sample_ptb [] sample_db)
           = (Inr (Some EDIT_MIN_PRICE),
              (sample_ptb [] sample_db)\<lparr>bot := [remove_reply_markup 42 1,
                 send_message 42 (price_instructions ''Min'') None None]\<rparr>)"
    by (simp add: Methods_update_min_price_trigger_def
        Methods_send_message_eq [OF effective_user_sample(2)] sample_fields)
       (simp add: callback_update_def)
  have c: "cached ?w = None"
    by (simp add: t cached_def get_user_data_def sample_fields)
  have "fst (Methods_get_notification (text_update ''5'') ?w) = Inl NotificationNotFoundError"
    by (simp add: Methods_get_notification_session carries_no_id_text c)
  then have "fst (Methods_update_min_price (text_update ''5'') ?w) = Inl NotificationNotFoundError"
    by (rule Methods_update_min_price_failed_lookup)
  with c show ?thesis
    by (simp add: carries_id_edit_sample row_sample_db t)
qed

subsection \<open>C8: what the resolver caches\<close>

text \<open>
  Claim C8, as amended. \<^verbatim>\<open>Methods.get_notification\<close>, called with callback data whose id
  names a stored notification, caches that record in the session before it returns it,
  and a following call without an id returns the same record.
  \<^verbatim>\<open>Handlers.__get_notification\<close> never writes the session: its state and data are the
  same after every call (in that integration the edit triggers pin the target).
\<close>

theorem resolver_caching:
  "(carries_id u i \<and> row (db w) i = Some n \<and> user_data w = Some ud \<longrightarrow>
      fst (Methods_get_notification u w) = Inr n
      \<and> cached (snd (Methods_get_notification u w)) = Some n
      \<and> (carries_no_id u' \<longrightarrow>
           fst (Methods_get_notification u' (snd (Methods_get_notification u w))) = Inr n))
   \<and> fsm_data (snd (Handlers_get_notification src a)) = fsm_data a
   \<and> fsm_state (snd (Handlers_get_notification src a)) = fsm_state a"
proof (intro conjI impI)
  assume h: "carries_id u i \<and> row (db w) i = Some n \<and> user_data w = Some ud"
  then have e: "Methods_get_notification u w =
      (Inr n, w\<lparr>db := logged (GetNotification (IntVal i)) (db w),
                 user_data := Some (AList.update Vars_NOTIFICATION (NotificationValue n) ud)\<rparr>)"
    by (simp add: Methods_get_notification_explicit [of u i w n ud])
  from h have c: "cached (snd (Methods_get_notification u w)) = Some n"
    unfolding e using cached_after_update [of "w\<lparr>db := logged (GetNotification (IntVal i)) (db w)\<rparr>" ud n]
    by simp
  show "fst (Methods_get_notification u w) = Inr n" by (simp add: e)
  show "cached (snd (Methods_get_notification u w)) = Some n" by (rule c)
  show "fst (Methods_get_notification u' (snd (Methods_get_notification u w))) = Inr n"
    if "carries_no_id u'"
    using that c by (simp add: Methods_get_notification_session)
qed (simp_all add: Handlers_get_notification_session_frame)

text \<open>The theorem for a button of notification 7, followed by a text message.\<close>

theorem resolver_caching_witness:
  "fst (Methods_get_notification (callback_update ''show!notification_id=7'') (sample_ptb [] sample_db))
     = Inr sample_notification
   \<and> cached (snd (Methods_get_notification (callback_update ''show!notification_id=7'')
                    (sample_ptb [] sample_db))) = Some sample_notification
   \<and> fst (Methods_get_notification (text_update ''lego city'')
            (snd (Methods_get_notification (callback_update ''show!notification_id=7'')
                    (sample_ptb [] sample_db)))) = Inr sample_notification"
  using resolver_caching [of "callback_update ''show!notification_id=7''" 7 "sample_ptb [] sample_db"
      sample_notification "[]" "text_update ''lego city''"]
  by (simp add: carries_id_sample carries_no_id_text row_sample_db sample_fields)

text \<open>
  The claim as stated fails for \<^verbatim>\<open>Handlers.__get_notification\<close>: the callback data names
  the stored notification 7 and the call returns it, the session data stay empty, and a
  following call on the session raises \<^verbatim>\<open>NotificationNotFoundError\<close>.
\<close>

theorem resolver_caching_counterexample:
  "fst (Handlers_get_notification (CallbackData [(''notification_id'', StrVal ''7'')])
          (sample_aio None [] sample_db)) = Inr sample_notification
   \<and> fsm_data (snd (Handlers_get_notification (CallbackData [(''notification_id'', StrVal ''7'')])
          (sample_aio None [] sample_db))) = []
   \<and> fst (Handlers_get_notification StateContext
            (snd (Handlers_get_notification (CallbackData [(''notification_id'', StrVal ''7'')])
                    (sample_aio None [] sample_db)))) = Inl NotificationNotFoundError"
  by (simp add: Handlers_get_notification_eq lookup_key_def py_int_7 row_sample_db sample_fields
      logged_def row_def sample_db_def)

subsection \<open>Cancel, start and toggle\<close>

lemma Handlers_start_ok: "fst (Handlers_start m w) = Inr ()"
  by (simp add: Handlers_start_def Handlers_get_user_def SQLiteUser_get_by_id_def
      SQLiteNotifications_get_by_user_id_def Let_def split: option.splits prod.splits sum.splits error.splits)

lemma Handlers_start_session_frame:
  "fsm_state (snd (Handlers_start m w)) = fsm_state w"
  "fsm_data (snd (Handlers_start m w)) = fsm_data w"
  by (simp_all add: Handlers_start_def Handlers_get_user_def SQLiteUser_get_by_id_def
      SQLiteNotifications_get_by_user_id_def Let_def Handlers_overwrite_or_answer_frame
      split: option.splits prod.splits sum.splits error.splits)

lemma Handlers_finish_state_session:
  "fsm_state (Handlers_finish_state w) = None"
  "fsm_data w = [] \<or> fsm_state w \<noteq> None \<Longrightarrow> fsm_data (Handlers_finish_state w) = []"
  by (auto simp add: Handlers_finish_state_def finish_def)

lemma Handlers_finish_state_idle: "fsm_state w = None \<Longrightarrow> Handlers_finish_state w = w"
  by (simp add: Handlers_finish_state_def)

lemma Handlers_get_notification_missing:
  assumes "case named_id (fsm_data a) of Some k \<Rightarrow> row (adb a) k = None | None \<Rightarrow> row (adb a) 0 = None"
  shows "Handlers_get_notification StateContext a =
           (Inl NotificationNotFoundError,
            a\<lparr>adb := logged (GetNotification (lookup_key (fsm_data a))) (adb a)\<rparr>)"
proof (cases "named_id (fsm_data a)")
  case None
  with assms named_id_none_row_key [OF None] show ?thesis
    by (auto simp add: Handlers_get_notification_eq)
next
  case (Some k)
  with assms named_id_row_key [OF Some] show ?thesis
    by (simp add: Handlers_get_notification_eq)
qed









subsection \<open>C6: cancel when the target is gone\<close>

text \<open>
  Claim C6. A dialogue is active and the id pinned in the session names no row of the
  store (or no id is pinned and there is no row 0). Then \<^verbatim>\<open>Handlers.cancel\<close> raises
  nothing: the \<^verbatim>\<open>NotificationNotFoundError\<close> of the lookup is caught, the result is that
  of \<^verbatim>\<open>start_over\<close> run after the lookup, and afterwards the state is idle and the
  session data are empty.
\<close>

theorem cancel_missing_target:
  assumes "fsm_state a \<noteq> None"
    and "case named_id (fsm_data a) of Some k \<Rightarrow> row (adb a) k = None | None \<Rightarrow> row (adb a) 0 = None"
  shows "fst (Handlers_cancel m a) = Inr ()
     \<and> Handlers_cancel m a =
         Handlers_start_over (OfMessage m)
           (a\<lparr>adb := logged (GetNotification (lookup_key (fsm_data a))) (adb a)\<rparr>)
     \<and> fsm_state (snd (Handlers_cancel m a)) = None
     \<and> fsm_data (snd (Handlers_cancel m a)) = []"
proof -
  let ?a1 = "a\<lparr>adb := logged (GetNotification (lookup_key (fsm_data a))) (adb a)\<rparr>"
  let ?r = "Handlers_start_over (OfMessage m) ?a1"
  have s: "fsm_state (snd ?r) = None" and d: "fsm_data (snd ?r) = []"
    using assms(1)
    by (simp_all add: Handlers_start_over_def Handlers_start_session_frame Handlers_finish_state_session)
  have o: "fst ?r = Inr ()"
    by (simp add: Handlers_start_over_def Handlers_start_ok)
  from assms(1) obtain st where st: "fsm_state a = Some st"
    by auto
  have "Handlers_cancel m a = (Inr (), Handlers_finish_state (snd ?r))"
    using o
    by (cases ?r) (simp add: Handlers_cancel_def st Handlers_get_notification_missing [OF assms(2)])
  also have "\<dots> = ?r"
    using o Handlers_finish_state_idle [OF s] by (simp add: prod_eq_iff)
  finally have e: "Handlers_cancel m a = ?r" .
  show ?thesis
    by (simp add: e o s d)
qed

text \<open>
  The theorem in the minimum-price dialogue for notification 7 over an empty store; the
  only reply is the start message.
\<close>

theorem cancel_missing_target_witness:
  "fst (Handlers_cancel (sample_message ''/cancel'')
          (sample_aio (Some EDIT_MIN_PRICE) [(''notification_id'', StrVal ''7'')] empty_db)) = Inr ()
   \<and> fsm_state (snd (Handlers_cancel (sample_message ''/cancel'')
          (sample_aio (Some EDIT_MIN_PRICE) [(''notification_id'', StrVal ''7'')] empty_db))) = None
   \<and> fsm_data (snd (Handlers_cancel (sample_message ''/cancel'')
          (sample_aio (Some EDIT_MIN_PRICE) [(''notification_id'', StrVal ''7'')] empty_db))) = []
   \<and> replies (snd (Handlers_cancel (sample_message ''/cancel'')
          (sample_aio (Some EDIT_MIN_PRICE) [(''notification_id'', StrVal ''7'')] empty_db)))
       = [answer (start_text (Some (parse_telegram_chat new_UserModel (chat (sample_message ''/cancel'')))))
            (InlineKeyboard (start_keyboard []))]"
proof -
  let ?a = "sample_aio (Some EDIT_MIN_PRICE) [(''notification_id'', StrVal ''7'')] empty_db"
  let ?m = "sample_message ''/cancel''"
  have h1: "fsm_state ?a \<noteq> None"
    by (simp add: sample_fields)
  have h2: "case named_id (fsm_data ?a) of Some k \<Rightarrow> row (adb ?a) k = None
            | None \<Rightarrow> row (adb ?a) 0 = None"
    by (simp add: sample_fields named_id_sample row_empty_db)
  note t = cancel_missing_target [OF h1 h2, of ?m]
  from t have a: "fst (Handlers_cancel ?m ?a) = Inr ()"
    and e: "Handlers_cancel ?m ?a = Handlers_start_over (OfMessage ?m)
              (?a\<lparr>adb := logged (GetNotification (lookup_key (fsm_data ?a))) (adb ?a)\<rparr>)"
    and b: "fsm_state (snd (Handlers_cancel ?m ?a)) = None"
    and c: "fsm_data (snd (Handlers_cancel ?m ?a)) = []"
    by blast+
  have r: "replies (snd (Handlers_start_over (OfMessage ?m)
          (?a\<lparr>adb := logged (GetNotification (lookup_key (fsm_data ?a))) (adb ?a)\<rparr>)))
        = [answer (start_text (Some (parse_telegram_chat new_UserModel (chat ?m))))
             (InlineKeyboard (start_keyboard []))]"
    by (simp add: Handlers_start_over_def Handlers_finish_state_def finish_def Handlers_start_def
        Handlers_get_user_def Handlers_get_user_id_def SQLiteUser_get_by_id_def logged_def
        SQLiteUser_upsert_model_def SQLiteNotifications_get_by_user_id_def
        Handlers_overwrite_or_answer_def sample_aio_def sample_message_def empty_db_def
        parse_telegram_chat_def Let_def)
  have "replies (snd (Handlers_cancel ?m ?a))
        = [answer (start_text (Some (parse_telegram_chat new_UserModel (chat ?m))))
             (InlineKeyboard (start_keyboard []))]"
    unfolding e by (rule r)
  with a b c show ?thesis
    by blast
qed

subsection \<open>C9: toggling only-hot twice\<close>



subsection \<open>C10: cancel without a dialogue\<close>

text \<open>
  Claim C10. With no active state \<^verbatim>\<open>Handlers.cancel\<close> returns at once: no error, and
  the whole state is unchanged, that is no reply is sent, no call reaches the store
  (its list of calls, reads included, is the same), and the session state and data are
  as before.
\<close>

theorem cancel_idle_noop:
  "fsm_state a = None \<Longrightarrow> Handlers_cancel m a = (Inr (), a)"
  by (simp add: Handlers_cancel_def)

text \<open>The theorem for an idle user of the sample store.\<close>

theorem cancel_idle_noop_witness:
  "Handlers_cancel (sample_message ''/cancel'') (sample_aio None [] sample_db)
     = (Inr (), sample_aio None [] sample_db)"
  using cancel_idle_noop [of "sample_aio None [] sample_db" "sample_message ''/cancel''"]
  by (simp add: sample_fields)

subsection \<open>The invariant of the price bounds\<close>

lemma list_all_update:
  "list_all P al \<Longrightarrow> P (k, v) \<Longrightarrow> list_all P (AList.update k v al)"
  by (induction al) (auto simp add: AList.update.simps)

lemma prices_nonneg_logged: "prices_nonneg (logged c d) = prices_nonneg d"
  by (simp add: prices_nonneg_def logged_def)

lemma prices_nonneg_row:
  "prices_nonneg d \<Longrightarrow> row d i = Some n \<Longrightarrow> 0 \<le> min_price n \<and> 0 \<le> max_price n"
  by (auto simp add: prices_nonneg_def row_def list_all_iff dest!: map_of_SomeD)

lemma prices_nonneg_update_min:
  assumes "prices_nonneg d" and "0 \<le> p"
  shows "prices_nonneg (SQLiteNotifications_update d i (SetMinPrice p))"
proof (cases "row d i")
  case None
  with assms show ?thesis
    by (simp add: SQLiteNotifications_update_def prices_nonneg_logged row_def)
next
  case (Some n)
  with assms prices_nonneg_row [OF assms(1) Some] show ?thesis
    by (simp add: SQLiteNotifications_update_def prices_nonneg_logged row_def)
       (simp add: prices_nonneg_def list_all_update)
qed

lemma prices_nonneg_update_max:
  assumes "prices_nonneg d" and "0 \<le> p"
  shows "prices_nonneg (SQLiteNotifications_update d i (SetMaxPrice p))"
proof (cases "row d i")
  case None
  with assms show ?thesis
    by (simp add: SQLiteNotifications_update_def prices_nonneg_logged row_def)
next
  case (Some n)
  with assms prices_nonneg_row [OF assms(1) Some] show ?thesis
    by (simp add: SQLiteNotifications_update_def prices_nonneg_logged row_def)
       (simp add: prices_nonneg_def list_all_update)
qed

lemma prices_nonneg_upsert:
  assumes "prices_nonneg d" and "0 \<le> min_price n" and "0 \<le> max_price n"
  shows "prices_nonneg (snd (SQLiteNotifications_upsert_model d n))"
  using assms
  by (simp add: SQLiteNotifications_upsert_model_def Let_def prices_nonneg_logged)
     (simp add: prices_nonneg_def list_all_update)

lemma Methods_get_notification_db:
  "db (snd (Methods_get_notification u w)) = db w
   \<or> (\<exists>k. db (snd (Methods_get_notification u w)) = logged (GetNotification k) (db w))"
  by (auto simp add: Methods_get_notification_def SQLiteNotifications_get_by_id_def set_user_data_def
      Let_def split: sum.splits option.splits user_value.splits prod.splits)

lemma Methods_get_notification_prices:
  "prices_nonneg (db (snd (Methods_get_notification u w))) = prices_nonneg (db w)"
  using Methods_get_notification_db [of u w] by (auto simp add: prices_nonneg_logged)

lemma parse_price_0: "parse_price ''0'' = Inr 0"
  by (simp add: parse_price_def replace_char_def py_float_def py_round_def strip_def is_space_def
      sign_part_def lower_def number_part_def is_digit_def digit_val_def exponent_part_def
      to_double_def Let_def)

lemma valid_price_parse:
  assumes "valid_price t" and "parse_price (if t = ''/remove'' then ''0'' else t) = Inr p"
  shows "0 \<le> p"
  using assms by (auto simp add: valid_price_def parse_price_0 split: if_splits sum.splits)

lemma snd_case_result:
  "snd (case x of (Inl e, w') \<Rightarrow> (Inl e, w') | (Inr y, w') \<Rightarrow> (Inr (g y), w')) = snd x"
  by (cases x; cases "fst x") auto

lemma Methods_update_min_price_prices:
  assumes "prices_nonneg (db w)"
    and "\<And>p. parse_price (if get_text u = ''/remove'' then ''0'' else get_text u) = Inr p \<Longrightarrow> 0 \<le> p"
  shows "prices_nonneg (db (snd (Methods_update_min_price u w)))"
proof (cases "Methods_get_notification u w")
  case (Pair res w1)
  then have w1: "prices_nonneg (db w1)"
    using Methods_get_notification_prices [of u w] assms(1) by simp
  show ?thesis
  proof (cases res)
    case (Inl e)
    with Pair w1 show ?thesis
      by (simp add: Methods_update_min_price_def Let_def)
  next
    case (Inr n)
    show ?thesis
    proof (cases "parse_price (if get_text u = ''/remove'' then ''0'' else get_text u)")
      case (Inl e)
      with Pair Inr w1 show ?thesis
        by (simp add: Methods_update_min_price_def Let_def)
    next
      case (Inr p) note p = this
      from assms(2) [OF p] have "0 \<le> p" .
      with w1 have "prices_nonneg (SQLiteNotifications_update (db w1) (n_id n) (SetMinPrice p))"
        by (rule prices_nonneg_update_min)
      with Pair \<open>res = Inr n\<close> p show ?thesis
        by (simp add: Methods_update_min_price_def Let_def assign_cached_def
            snd_case_result Methods_send_message_frame)
    qed
  qed
qed

lemma Methods_update_max_price_prices:
  assumes "prices_nonneg (db w)"
    and "\<And>p. parse_price (if get_text u = ''/remove'' then ''0'' else get_text u) = Inr p \<Longrightarrow> 0 \<le> p"
  shows "prices_nonneg (db (snd (Methods_update_max_price u w)))"
proof (cases "Methods_get_notification u w")
  case (Pair res w1)
  then have w1: "prices_nonneg (db w1)"
    using Methods_get_notification_prices [of u w] assms(1) by simp
  show ?thesis
  proof (cases res)
    case (Inl e)
    with Pair w1 show ?thesis
      by (simp add: Methods_update_max_price_def Let_def)
  next
    case (Inr n)
    show ?thesis
    proof (cases "parse_price (if get_text u = ''/remove'' then ''0'' else get_text u)")
      case (Inl e)
      with Pair Inr w1 show ?thesis
        by (simp add: Methods_update_max_price_def Let_def)
    next
      case (Inr p) note p = this
      from assms(2) [OF p] have "0 \<le> p" .
      with w1 have "prices_nonneg (SQLiteNotifications_update (db w1) (n_id n) (SetMaxPrice p))"
        by (rule prices_nonneg_update_max)
      with Pair \<open>res = Inr n\<close> p show ?thesis
        by (simp add: Methods_update_max_price_def Let_def assign_cached_def
            snd_case_result Methods_send_message_frame)
    qed
  qed
qed

lemma Methods_failed_db:
  "db (snd (Methods_update_min_price_failed u w)) = db w"
  "db (snd (Methods_update_max_price_failed u w)) = db w"
  by (simp_all add: Methods_update_min_price_failed_def Methods_update_max_price_failed_def
      snd_case_result Methods_send_message_frame)

lemma Handlers_get_notification_prices:
  "prices_nonneg (adb (snd (Handlers_get_notification src a))) = prices_nonneg (adb a)"
  by (simp add: Handlers_get_notification_eq Let_def prices_nonneg_logged split: option.splits)

lemma Handlers_get_notification_result_row:
  "Handlers_get_notification src a = (Inr n, a1) \<Longrightarrow> \<exists>i. row (adb a) i = Some n"
  by (auto simp add: Handlers_get_notification_eq Let_def split: option.splits)

lemma Handlers_process_edit_min_price_prices:
  assumes "prices_nonneg (adb a)"
    and "\<And>p. parse_price (if msg_text m = ''/remove'' then ''0'' else msg_text m) = Inr p \<Longrightarrow> 0 \<le> p"
  shows "prices_nonneg (adb (snd (Handlers_process_edit_min_price m a)))"
proof (cases "Handlers_get_notification StateContext a")
  case (Pair res a1)
  then have a1: "prices_nonneg (adb a1)"
    using Handlers_get_notification_prices [of StateContext a] assms(1) by simp
  show ?thesis
  proof (cases res)
    case (Inl e)
    with Pair a1 show ?thesis
      by (simp add: Handlers_process_edit_min_price_def Let_def)
  next
    case (Inr n)
    with Pair obtain i where "row (adb a) i = Some n"
      using Handlers_get_notification_result_row by blast
    with assms(1) have n: "0 \<le> min_price n \<and> 0 \<le> max_price n"
      by (rule prices_nonneg_row)
    show ?thesis
    proof (cases "parse_price (if msg_text m = ''/remove'' then ''0'' else msg_text m)")
      case (Inl e)
      with Pair Inr a1 show ?thesis
        by (simp add: Handlers_process_edit_min_price_def Let_def Commands_REMOVE_def)
    next
      case (Inr p) note p = this
      from assms(2) [OF p] n
      have "prices_nonneg (snd (SQLiteNotifications_upsert_model (adb a1) (n\<lparr>min_price := p\<rparr>)))"
        by (intro prices_nonneg_upsert a1) simp_all
      with Pair \<open>res = Inr n\<close> p show ?thesis
        by (simp add: Handlers_process_edit_min_price_def Let_def Commands_REMOVE_def finish_def
            Handlers_overwrite_or_answer_frame)
    qed
  qed
qed

lemma Handlers_process_edit_max_price_prices:
  assumes "prices_nonneg (adb a)"
    and "\<And>p. parse_price (if msg_text m = ''/remove'' then ''0'' else msg_text m) = Inr p \<Longrightarrow> 0 \<le> p"
  shows "prices_nonneg (adb (snd (Handlers_process_edit_max_price m a)))"
proof (cases "Handlers_get_notification StateContext a")
  case (Pair res a1)
  then have a1: "prices_nonneg (adb a1)"
    using Handlers_get_notification_prices [of StateContext a] assms(1) by simp
  show ?thesis
  proof (cases res)
    case (Inl e)
    with Pair a1 show ?thesis
      by (simp add: Handlers_process_edit_max_price_def Let_def)
  next
    case (Inr n)
    with Pair obtain i where "row (adb a) i = Some n"
      using Handlers_get_notification_result_row by blast
    with assms(1) have n: "0 \<le> min_price n \<and> 0 \<le> max_price n"
      by (rule prices_nonneg_row)
    show ?thesis
    proof (cases "parse_price (if msg_text m = ''/remove'' then ''0'' else msg_text m)")
      case (Inl e)
      with Pair Inr a1 show ?thesis
        by (simp add: Handlers_process_edit_max_price_def Let_def Commands_REMOVE_def)
    next
      case (Inr p) note p = this
      from assms(2) [OF p] n
      have "prices_nonneg (snd (SQLiteNotifications_upsert_model (adb a1) (n\<lparr>max_price := p\<rparr>)))"
        by (intro prices_nonneg_upsert a1) simp_all
      with Pair \<open>res = Inr n\<close> p show ?thesis
        by (simp add: Handlers_process_edit_max_price_def Let_def Commands_REMOVE_def finish_def
            Handlers_overwrite_or_answer_frame)
    qed
  qed
qed

lemma Handlers_invalid_price_db: "adb (snd (Handlers_invalid_price m a)) = adb a"
  by (simp add: Handlers_invalid_price_def Handlers_overwrite_or_answer_frame)

lemma parse_price_minus_5: "parse_price ''-5'' = Inr (- 5)"
  by (simp add: parse_price_def replace_char_def py_float_def py_round_def strip_def is_space_def
      sign_part_def lower_def number_part_def is_digit_def digit_val_def exponent_part_def
      to_double_def floor_log2_def round_half_even_def Let_def)

lemma prices_nonneg_sample_db: "prices_nonneg sample_db"
  by (simp add: prices_nonneg_def sample_db_def sample_notification_def)

text \<open>
  The mutating handlers do not test the sign themselves: called directly with the text
  \<^verbatim>\<open>-5\<close>, \<^verbatim>\<open>Methods.update_max_price\<close> stores \<open>-5\<close>. The invariant below rests on the
  routing of the text.
\<close>

lemma update_max_price_unguarded:
  "map_option max_price
     (row (db (snd (Methods_update_max_price (text_update ''-5'')
        (sample_ptb [(Vars_NOTIFICATION, NotificationValue sample_notification)] sample_db)))) 7)
   = Some (- 5)"
proof -
  have p: "parse_price (if get_text (text_update ''-5'') = ''/remove'' then ''0''
                        else get_text (text_update ''-5'')) = Inr (- 5)"
    by (simp add: get_text_text_update parse_price_minus_5)
  show ?thesis
    using Methods_update_max_price_session(2)
      [OF carries_no_id_text cached_sample_ptb(1) effective_user_sample(1) p,
        of sample_notification sample_db]
    by (simp add: sample_fields n_id_sample row_update row_sample_db)
qed

subsection \<open>C7: price bounds stay non-negative\<close>

text \<open>
  Claim C7. The handlers of the sources store the rounded value of the text without a
  test of its sign: when every stored notification has non-negative price bounds and the
  text has no negative value, the bounds are non-negative again after
  \<^verbatim>\<open>update_min_price\<close>, \<^verbatim>\<open>update_max_price\<close>, \<^verbatim>\<open>process_edit_min_price\<close> and
  \<^verbatim>\<open>process_edit_max_price\<close>, whatever the session holds. The routing of a price text is
  modelled from the spec (the registration of the handlers is not among the sources):
  under it the bounds stay non-negative after any text in the minimum-price or the
  maximum-price dialogue, in both integrations. A text whose value rounds to a negative
  integer is not a valid price, the value of a valid text is a non-negative integer, and
  a text that is not valid leaves the store as it was.
\<close>

theorem prices_stay_nonneg:
  "(prices_nonneg (db w)
      \<and> (\<forall>q. parse_price (if get_text u = ''/remove'' then ''0'' else get_text u) = Inr q
               \<longrightarrow> 0 \<le> q) \<longrightarrow>
      prices_nonneg (db (snd (Methods_update_min_price u w)))
      \<and> prices_nonneg (db (snd (Methods_update_max_price u w))))
   \<and> (prices_nonneg (adb a)
      \<and> (\<forall>q. parse_price (if msg_text m = ''/remove'' then ''0'' else msg_text m) = Inr q
               \<longrightarrow> 0 \<le> q) \<longrightarrow>
      prices_nonneg (adb (snd (Handlers_process_edit_min_price m a)))
      \<and> prices_nonneg (adb (snd (Handlers_process_edit_max_price m a))))
   \<and> (prices_nonneg (db w) \<longrightarrow>
      prices_nonneg (db (snd (Methods_min_price_text u w)))
      \<and> prices_nonneg (db (snd (Methods_max_price_text u w))))
   \<and> (prices_nonneg (adb a) \<longrightarrow>
      prices_nonneg (adb (snd (Handlers_min_price_text m a)))
      \<and> prices_nonneg (adb (snd (Handlers_max_price_text m a))))
   \<and> (parse_price t = Inr p \<and> p < 0 \<longrightarrow> \<not> valid_price t)
   \<and> (valid_price t' \<longrightarrow>
        (\<exists>p'. parse_price (if t' = ''/remove'' then ''0'' else t') = Inr p' \<and> 0 \<le> p'))
   \<and> (\<not> valid_price (get_text u) \<longrightarrow>
        db (snd (Methods_min_price_text u w)) = db w \<and> db (snd (Methods_max_price_text u w)) = db w)
   \<and> (\<not> valid_price (msg_text m) \<longrightarrow>
        adb (snd (Handlers_min_price_text m a)) = adb a
        \<and> adb (snd (Handlers_max_price_text m a)) = adb a)"
proof (intro conjI impI)
  assume h: "prices_nonneg (db w)
      \<and> (\<forall>q. parse_price (if get_text u = ''/remove'' then ''0'' else get_text u) = Inr q
               \<longrightarrow> 0 \<le> q)"
  then show "prices_nonneg (db (snd (Methods_update_min_price u w)))"
    by (intro Methods_update_min_price_prices) auto
  from h show "prices_nonneg (db (snd (Methods_update_max_price u w)))"
    by (intro Methods_update_max_price_prices) auto
next
  assume h: "prices_nonneg (adb a)
      \<and> (\<forall>q. parse_price (if msg_text m = ''/remove'' then ''0'' else msg_text m) = Inr q
               \<longrightarrow> 0 \<le> q)"
  then show "prices_nonneg (adb (snd (Handlers_process_edit_min_price m a)))"
    by (intro Handlers_process_edit_min_price_prices) auto
  from h show "prices_nonneg (adb (snd (Handlers_process_edit_max_price m a)))"
    by (intro Handlers_process_edit_max_price_prices) auto
next
  assume h: "prices_nonneg (db w)"
  show "prices_nonneg (db (snd (Methods_min_price_text u w)))"
    using h valid_price_parse [of "get_text u"]
    by (simp add: Methods_min_price_text_def Methods_update_min_price_prices Methods_failed_db)
  show "prices_nonneg (db (snd (Methods_max_price_text u w)))"
    using h valid_price_parse [of "get_text u"]
    by (simp add: Methods_max_price_text_def Methods_update_max_price_prices Methods_failed_db)
next
  assume h: "prices_nonneg (adb a)"
  show "prices_nonneg (adb (snd (Handlers_min_price_text m a)))"
    using h valid_price_parse [of "msg_text m"]
    by (simp add: Handlers_min_price_text_def Handlers_process_edit_min_price_prices
        Handlers_invalid_price_db)
  show "prices_nonneg (adb (snd (Handlers_max_price_text m a)))"
    using h valid_price_parse [of "msg_text m"]
    by (simp add: Handlers_max_price_text_def Handlers_process_edit_max_price_prices
        Handlers_invalid_price_db)
next
  assume "parse_price t = Inr p \<and> p < 0"
  then show "\<not> valid_price t"
    by (auto simp add: valid_price_def parse_price_def py_float_def replace_char_def strip_def
        is_space_def sign_part_def lower_def number_part_def is_digit_def Let_def)
next
  assume "valid_price t'"
  then show "\<exists>p'. parse_price (if t' = ''/remove'' then ''0'' else t') = Inr p' \<and> 0 \<le> p'"
    by (auto simp add: valid_price_def parse_price_0 split: sum.splits)
qed (simp_all add: Methods_min_price_text_def Methods_max_price_text_def Handlers_min_price_text_def
      Handlers_max_price_text_def Methods_failed_db Handlers_invalid_price_db)

text \<open>
  The theorem in a dialogue pinned to notification 7, for a text that is accepted and
  one that is refused: \<^verbatim>\<open>12,50\<close> reaches the mutating handlers, which store 12 and keep
  the bounds non-negative; \<^verbatim>\<open>-5\<close> is not a valid price and the store is as before.
\<close>

theorem prices_stay_nonneg_witness:
  "prices_nonneg (db (snd (Methods_update_max_price (text_update ''12,50'')
      (sample_ptb [(Vars_NOTIFICATION, NotificationValue sample_notification)] sample_db))))
   \<and> prices_nonneg (adb (snd (Handlers_process_edit_min_price (sample_message ''12,50'')
      (sample_aio (Some EDIT_MIN_PRICE) [(''notification_id'', StrVal ''7'')] sample_db))))
   \<and> valid_price ''12,50''
   \<and> prices_nonneg (db (snd (Methods_max_price_text (text_update ''12,50'')
      (sample_ptb [(Vars_NOTIFICATION, NotificationValue sample_notification)] sample_db))))
   \<and> map_option max_price (row (db (snd (Methods_max_price_text (text_update ''12,50'')
      (sample_ptb [(Vars_NOTIFICATION, NotificationValue sample_notification)] sample_db)))) 7)
       = Some 12
   \<and> prices_nonneg (adb (snd (Handlers_min_price_text (sample_message ''12,50'')
      (sample_aio (Some EDIT_MIN_PRICE) [(''notification_id'', StrVal ''7'')] sample_db))))
   \<and> map_option min_price (row (adb (snd (Handlers_min_price_text (sample_message ''12,50'')
      (sample_aio (Some EDIT_MIN_PRICE) [(''notification_id'', StrVal ''7'')] sample_db)))) 7)
       = Some 12
   \<and> \<not> valid_price ''-5''
   \<and> prices_nonneg (db (snd (Methods_min_price_text (text_update ''-5'')
      (sample_ptb [(Vars_NOTIFICATION, NotificationValue sample_notification)] sample_db))))
   \<and> db (snd (Methods_max_price_text (text_update ''-5'')
      (sample_ptb [(Vars_NOTIFICATION, NotificationValue sample_notification)] sample_db))) = sample_db
   \<and> adb (snd (Handlers_max_price_text (sample_message ''-5'')
      (sample_aio (Some EDIT_MIN_PRICE) [(''notification_id'', StrVal ''7'')] sample_db))) = sample_db"
proof -
  let ?w = "sample_ptb [(Vars_NOTIFICATION, NotificationValue sample_notification)] sample_db"
  let ?a = "sample_aio (Some EDIT_MIN_PRICE) [(''notification_id'', StrVal ''7'')] sample_db"
  have v: "valid_price ''12,50''"
    by (simp add: valid_price_def parse_price_12_50)
  have n: "\<not> valid_price ''-5''"
    by (simp add: valid_price_def parse_price_minus_5)
  have p: "parse_price (if get_text (text_update ''12,50'') = ''/remove'' then ''0''
                        else get_text (text_update ''12,50'')) = Inr 12"
    by (simp add: get_text_text_update parse_price_12_50)
  have q: "parse_price (if msg_text (sample_message ''12,50'') = CHR ''/'' # Commands_REMOVE then ''0''
                        else msg_text (sample_message ''12,50'')) = Inr 12"
    by (simp add: msg_text_sample parse_price_12_50 Commands_REMOVE_def)
  note accepted = prices_stay_nonneg [of ?w "text_update ''12,50''" ?a "sample_message ''12,50''"
      "''-5''" "- 5" "''12,50''"]
  note refused = prices_stay_nonneg [of ?w "text_update ''-5''" ?a "sample_message ''-5''"
      "''-5''" "- 5" "''12,50''"]
  from accepted have a1:
    "prices_nonneg (db (snd (Methods_update_max_price (text_update ''12,50'') ?w)))"
    "prices_nonneg (adb (snd (Handlers_process_edit_min_price (sample_message ''12,50'') ?a)))"
    "prices_nonneg (db (snd (Methods_max_price_text (text_update ''12,50'') ?w)))"
    "prices_nonneg (adb (snd (Handlers_min_price_text (sample_message ''12,50'') ?a)))"
    by (simp_all add: sample_fields prices_nonneg_sample_db get_text_text_update msg_text_sample
        parse_price_12_50)
  from refused n have r1:
    "prices_nonneg (db (snd (Methods_min_price_text (text_update ''-5'') ?w)))"
    "db (snd (Methods_max_price_text (text_update ''-5'') ?w)) = sample_db"
    "adb (snd (Handlers_max_price_text (sample_message ''-5'') ?a)) = sample_db"
    by (simp_all add: sample_fields prices_nonneg_sample_db get_text_text_update msg_text_sample)
  have "db (snd (Methods_max_price_text (text_update ''12,50'') ?w))
        = SQLiteNotifications_update sample_db 7 (SetMaxPrice 12)"
    using Methods_update_max_price_session(2)
      [OF carries_no_id_text cached_sample_ptb(1) effective_user_sample(1) p,
        of sample_notification sample_db]
    by (simp add: Methods_max_price_text_def get_text_text_update v sample_fields n_id_sample)
  then have m1: "map_option max_price (row (db (snd (Methods_max_price_text (text_update ''12,50'') ?w))) 7)
                 = Some 12"
    by (simp add: row_update row_sample_db)
  have "adb (snd (Handlers_min_price_text (sample_message ''12,50'') ?a))
        = snd (SQLiteNotifications_upsert_model
                 (logged (GetNotification (StrVal ''7'')) sample_db)
                 (sample_notification\<lparr>min_price := 12\<rparr>))"
    using Handlers_process_edit_min_price_pinned(4)
      [of ?a 7 sample_notification "sample_message ''12,50''" 12, OF _ _ q]
    by (simp add: Handlers_min_price_text_def msg_text_sample v sample_fields named_id_sample
        row_sample_db lookup_key_def)
  then have m2: "map_option min_price (row (adb (snd (Handlers_min_price_text (sample_message ''12,50'') ?a))) 7)
                 = Some 12"
    by (simp add: row_upsert row_logged row_sample_db n_id_sample)
  from a1 r1 v n m1 m2 show ?thesis
    by blast
qed

subsection \<open>Searching a token\<close>

lemma find_at_ge: "find_at sub s i = - 1 \<or> int i \<le> find_at sub s i"
proof (induction s arbitrary: i)
  case Nil
  then show ?case by simp
next
  case (Cons c cs)
  from Cons [of "Suc i"] show ?case
    by auto
qed

lemma find_at_nonneg: "find_at sub s 0 = - 1 \<or> 0 \<le> find_at sub s 0"
  using find_at_ge [of sub s 0] by simp

lemma find_at_from:
  "find_at sub s i = (if find_at sub s 0 = - 1 then - 1 else int i + find_at sub s 0)"
proof (induction s arbitrary: i)
  case Nil
  then show ?case by simp
next
  case (Cons c cs)
  from Cons [of "Suc i"] Cons [of "Suc 0"] find_at_nonneg [of sub cs] show ?case
    by auto
qed

lemma find_at_single:
  "find_at [c] s i = (if c \<in> set s then int (i + length (takeWhile (\<lambda>x. x \<noteq> c) s)) else - 1)"
  by (induction s arbitrary: i) auto

lemma str_find_zero: "str_find s sub 0 = find_at sub s 0"
  by (simp add: str_find_def)

lemma str_find_Cons:
  "str_find (c # s) sub (Suc st) =
     (if str_find s sub st = - 1 then - 1 else str_find s sub st + 1)"
proof -
  have "find_at sub (drop st s) (Suc st) =
          (if find_at sub (drop st s) st = - 1 then - 1 else find_at sub (drop st s) st + 1)"
    using find_at_from [of sub "drop st s" "Suc st"] find_at_from [of sub "drop st s" st]
      find_at_nonneg [of sub "drop st s"]
    by auto
  then show ?thesis
    by (simp add: str_find_def)
qed

lemma str_find_nonneg: "str_find s sub st = - 1 \<or> 0 \<le> str_find s sub st"
  using find_at_from [of sub "drop st s" st] find_at_nonneg [of sub "drop st s"]
  by (auto simp add: str_find_def)

lemma slice_Cons: "slice (c # s) (Suc a) (Suc b) = slice s a b"
  by (simp add: slice_def)

lemma variable_value_step:
  assumes "take (length pat) (c # s) \<noteq> pat"
  shows "variable_value (c # s) pat = variable_value s pat"
proof -
  let ?f = "find_at pat s 0"
  have f: "find_at pat (c # s) 0 = (if ?f = - 1 then - 1 else ?f + 1)"
    using assms find_at_from [of pat s "Suc 0"] by simp
  show ?thesis
  proof (cases "?f = - 1")
    case True
    with f have "find_at pat (c # s) 0 = - 1"
      by simp
    with True show ?thesis
      by (simp add: variable_value_def str_find_zero del: find_at.simps)
  next
    case False
    with find_at_nonneg [of pat s] have nn: "0 \<le> ?f"
      by auto
    let ?st = "nat ?f + length pat"
    let ?g = "str_find s ''!'' ?st"
    let ?h = "str_find (c # s) ''!'' (Suc ?st)"
    from f False have f': "find_at pat (c # s) 0 = ?f + 1"
      by simp
    have st: "nat (?f + 1) + length pat = Suc ?st"
      using nn by simp
    have ne: "(?f + 1 = - 1) = False"
      using nn by simp
    have nf: "(?f = - 1) = False"
      using False by simp
    have v1: "variable_value (c # s) pat =
                slice (c # s) (Suc ?st) (if ?h \<noteq> - 1 then nat ?h else length (c # s))"
      by (simp only: variable_value_def Let_def str_find_zero f' ne if_False st)
    have v2: "variable_value s pat = slice s ?st (if ?g \<noteq> - 1 then nat ?g else length s)"
      by (simp only: variable_value_def Let_def str_find_zero nf if_False)
    have h: "?h = (if ?g = - 1 then - 1 else ?g + 1)"
      by (rule str_find_Cons)
    show ?thesis
    proof (cases "?g = - 1")
      case True
      with h have "?h = - 1"
        by simp
      with True show ?thesis
        unfolding v1 v2 by (simp add: slice_Cons)
    next
      case g: False
      with str_find_nonneg [of s "''!''" ?st] have gn: "0 \<le> ?g"
        by auto
      from h g have h': "?h = ?g + 1"
        by simp
      have "nat (?g + 1) = Suc (nat ?g)" and "?g + 1 \<noteq> - 1"
        using gn by simp_all
      with g show ?thesis
        unfolding v1 v2 h' by (simp add: slice_Cons)
    qed
  qed
qed

lemma variable_value_skip:
  assumes "CHR ''!'' \<notin> set pre"
  shows "variable_value (pre @ r) (CHR ''!'' # k) = variable_value r (CHR ''!'' # k)"
  using assms
proof (induction pre)
  case Nil
  then show ?case by simp
next
  case (Cons c pre)
  then have "take (length (CHR ''!'' # k)) (c # pre @ r) \<noteq> CHR ''!'' # k"
    by auto
  then have "variable_value (c # pre @ r) (CHR ''!'' # k) = variable_value (pre @ r) (CHR ''!'' # k)"
    by (rule variable_value_step)
  with Cons show ?case
    by simp
qed

lemma takeWhile_all: "c \<notin> set s \<Longrightarrow> takeWhile (\<lambda>x. x \<noteq> c) s = s"
  by (induction s) auto

lemma variable_value_hit:
  assumes "pat \<noteq> []"
  shows "variable_value (pat @ rest) pat = takeWhile (\<lambda>c. c \<noteq> CHR ''!'') rest"
proof -
  let ?t = "takeWhile (\<lambda>c. c \<noteq> CHR ''!'') rest"
  from assms obtain c cs where p: "pat = c # cs"
    by (cases pat) auto
  have f: "find_at pat (pat @ rest) 0 = 0"
    by (simp add: p)
  have g: "str_find (pat @ rest) ''!'' (length pat) =
             (if CHR ''!'' \<in> set rest then int (length pat + length ?t) else - 1)"
    by (simp add: str_find_def find_at_single)
  have v: "variable_value (pat @ rest) pat =
             slice (pat @ rest) (length pat)
               (if CHR ''!'' \<in> set rest then length pat + length ?t else length (pat @ rest))"
    by (simp add: variable_value_def str_find_zero f g Let_def nat_int_add del: find_at.simps)
  show ?thesis
  proof (cases "CHR ''!'' \<in> set rest")
    case True
    have "take (length ?t) rest = ?t"
      by (rule takeWhile_eq_take [symmetric])
    with True show ?thesis
      by (simp add: v slice_def)
  next
    case False
    then show ?thesis
      by (simp add: v slice_def takeWhile_all)
  qed
qed

lemma takeWhile_pairs:
  "takeWhile (\<lambda>c. c \<noteq> CHR ''!'') (concat (map (\<lambda>(k, v). VARIABLE_PATTERN k v) vs)) = []"
  by (cases vs) (auto simp add: VARIABLE_PATTERN_def)

lemma takeWhile_prefix:
  "c \<notin> set s \<Longrightarrow> takeWhile (\<lambda>x. x \<noteq> c) (s @ r) = s @ takeWhile (\<lambda>x. x \<noteq> c) r"
  by (induction s) auto

lemma same_name:
  assumes "take (Suc (length k)) (k' @ CHR ''='' # r) = k @ [CHR ''='']"
    and "CHR ''='' \<notin> set k" and "CHR ''='' \<notin> set k'"
  shows "k' = k"
  using assms
proof (induction k arbitrary: k')
  case Nil
  then show ?case by (cases k') auto
next
  case (Cons a k)
  then show ?case by (cases k') auto
qed

lemma variable_value_pairs:
  assumes "\<forall>(k, v) \<in> set vs. CHR ''!'' \<notin> set k \<and> CHR ''='' \<notin> set k \<and> CHR ''!'' \<notin> set v"
    and "CHR ''='' \<notin> set name"
  shows "variable_value (concat (map (\<lambda>(k, v). VARIABLE_PATTERN k v) vs)) (VARIABLE_PATTERN name [])
           = (case map_of vs name of Some v \<Rightarrow> v | None \<Rightarrow> [])"
  using assms(1)
proof (induction vs)
  case Nil
  show ?case
    by (simp add: variable_value_def str_find_zero VARIABLE_PATTERN_def)
next
  case (Cons kv vs)
  obtain k v where kv: "kv = (k, v)"
    by (cases kv)
  let ?rest = "concat (map (\<lambda>(k, v). VARIABLE_PATTERN k v) vs)"
  let ?pat = "VARIABLE_PATTERN name []"
  from Cons.prems kv have k: "CHR ''!'' \<notin> set k" "CHR ''='' \<notin> set k" and v: "CHR ''!'' \<notin> set v"
    by auto
  from Cons.prems have ih: "variable_value ?rest ?pat = (case map_of vs name of Some v \<Rightarrow> v | None \<Rightarrow> [])"
    by (intro Cons.IH) auto
  show ?case
  proof (cases "k = name")
    case True
    have "concat (map (\<lambda>(k, v). VARIABLE_PATTERN k v) (kv # vs)) = ?pat @ (v @ ?rest)"
      by (simp add: kv True VARIABLE_PATTERN_def)
    moreover have "?pat \<noteq> []"
      by (simp add: VARIABLE_PATTERN_def)
    then have "variable_value (?pat @ (v @ ?rest)) ?pat = takeWhile (\<lambda>c. c \<noteq> CHR ''!'') (v @ ?rest)"
      by (rule variable_value_hit)
    ultimately have "variable_value (concat (map (\<lambda>(k, v). VARIABLE_PATTERN k v) (kv # vs))) ?pat
               = takeWhile (\<lambda>c. c \<noteq> CHR ''!'') (v @ ?rest)"
      by (simp only:)
    also have "\<dots> = v"
      using v by (simp add: takeWhile_prefix takeWhile_pairs)
    finally show ?thesis
      by (simp add: kv True)
  next
    case False
    let ?body = "k @ CHR ''='' # v"
    have e: "concat (map (\<lambda>(k, v). VARIABLE_PATTERN k v) (kv # vs)) = CHR ''!'' # (?body @ ?rest)"
      by (simp add: kv VARIABLE_PATTERN_def)
    have "take (length ?pat) (CHR ''!'' # (?body @ ?rest)) \<noteq> ?pat"
    proof
      assume "take (length ?pat) (CHR ''!'' # (?body @ ?rest)) = ?pat"
      then have "take (Suc (length name)) (k @ CHR ''='' # (v @ ?rest)) = name @ [CHR ''='']"
        by (simp add: VARIABLE_PATTERN_def)
      from same_name [OF this assms(2) k(2)] False show False
        by simp
    qed
    then have "variable_value (CHR ''!'' # (?body @ ?rest)) ?pat = variable_value (?body @ ?rest) ?pat"
      by (rule variable_value_step)
    also have "\<dots> = variable_value ?rest ?pat"
      using k(1) v
      by (simp only: VARIABLE_PATTERN_def) (rule variable_value_skip, simp)
    finally have m: "variable_value (CHR ''!'' # (?body @ ?rest)) ?pat = variable_value ?rest ?pat" .
    show ?thesis
      unfolding e m ih using False by (simp add: kv)
  qed
qed

lemma variable_value_encode:
  assumes "CHR ''!'' \<notin> set action"
    and "\<forall>(k, v) \<in> set vs. CHR ''!'' \<notin> set k \<and> CHR ''='' \<notin> set k \<and> CHR ''!'' \<notin> set v"
    and "CHR ''='' \<notin> set name"
  shows "variable_value (encode action vs) (VARIABLE_PATTERN name [])
           = (case map_of vs name of Some v \<Rightarrow> v | None \<Rightarrow> [])"
proof -
  have "variable_value (encode action vs) (VARIABLE_PATTERN name [])
        = variable_value (concat (map (\<lambda>(k, v). VARIABLE_PATTERN k v) vs)) (VARIABLE_PATTERN name [])"
    unfolding encode_def VARIABLE_PATTERN_def [of name]
    by (rule variable_value_skip) (rule assms(1))
  then show ?thesis
    by (simp add: variable_value_pairs [OF assms(2,3)])
qed

lemma variable_value_Nil: "variable_value [] (VARIABLE_PATTERN name []) = []"
  by (simp add: variable_value_def str_find_zero VARIABLE_PATTERN_def)

lemma decode_action_encode:
  "CHR ''!'' \<notin> set action \<Longrightarrow> decode_action (encode action vs) = action"
  by (simp add: decode_action_def encode_def takeWhile_prefix takeWhile_pairs)

subsection \<open>C2: the callback codec round-trips\<close>

text \<open>
  Claim C2. The encoder and the action of a token are modelled from the spec (the
  keyboards module that builds the tokens is not among the sources); the decoder of a
  variable is \<^verbatim>\<open>Methods.get_callback_variable\<close> of the sources. For an action without the
  pair delimiter and variables whose names and values contain neither delimiter, the
  token of \<^verbatim>\<open>encode\<close> gives back the action, and for every name without the name/value
  delimiter \<^verbatim>\<open>get_callback_variable\<close> returns the value the variables give that name, and
  the empty string when they give none. The variables are the items of the dictionary in
  its order.
\<close>

theorem codec_round_trip:
  assumes "CHR ''!'' \<notin> set action"
    and "\<forall>(k, v) \<in> set variables.
           CHR ''!'' \<notin> set k \<and> CHR ''='' \<notin> set k \<and> CHR ''!'' \<notin> set v \<and> CHR ''='' \<notin> set v"
    and "CHR ''='' \<notin> set name"
    and "callback_query update = Some q" and "cq_data q = Some (encode action variables)"
  shows "decode_action (encode action variables) = action
     \<and> get_callback_variable update name
         = (case map_of variables name of Some v \<Rightarrow> v | None \<Rightarrow> [])"
proof -
  from assms(2)
  have p: "\<forall>(k, v) \<in> set variables. CHR ''!'' \<notin> set k \<and> CHR ''='' \<notin> set k \<and> CHR ''!'' \<notin> set v"
    by auto
  note v = variable_value_encode [OF assms(1) p assms(3)]
  have "get_callback_variable update name
          = variable_value (encode action variables) (VARIABLE_PATTERN name [])"
    using variable_value_Nil [of name]
    by (simp add: get_callback_variable_def assms(4,5))
  with v decode_action_encode [OF assms(1)] show ?thesis
    by simp
qed

text \<open>The theorem for a token with two variables: a name that is present, one that is not.\<close>

theorem codec_round_trip_witness:
  "decode_action (encode ''show'' [(''notification_id'', ''7''), (''page'', ''2'')]) = ''show''
   \<and> get_callback_variable
        (callback_update (encode ''show'' [(''notification_id'', ''7''), (''page'', ''2'')])) ''page''
       = ''2''
   \<and> get_callback_variable
        (callback_update (encode ''show'' [(''notification_id'', ''7''), (''page'', ''2'')])) ''query''
       = []"
  using codec_round_trip [of "''show''" "[(''notification_id'', ''7''), (''page'', ''2'')]" "''page''"
      "callback_update (encode ''show'' [(''notification_id'', ''7''), (''page'', ''2'')])"
      "\<lparr>cq_data = Some (encode ''show'' [(''notification_id'', ''7''), (''page'', ''2'')]),
        cq_message_id = Some 1\<rparr>"]
    codec_round_trip [of "''show''" "[(''notification_id'', ''7''), (''page'', ''2'')]" "''query''"
      "callback_update (encode ''show'' [(''notification_id'', ''7''), (''page'', ''2'')])"
      "\<lparr>cq_data = Some (encode ''show'' [(''notification_id'', ''7''), (''page'', ''2'')]),
        cq_message_id = Some 1\<rparr>"]
  by (simp add: callback_update_def)

end
